theory Spec2Isabelle
  imports Complex_Main "HOL-Library.Sublist"
begin

section \<open>Portsmouth zoning analysis: rule table, classifier, evaluator, aggregators\<close>

text \<open>
  Conventions of the embedding.
  \<^item> The value of a Python number (\<open>int\<close> or finite \<open>float\<close>) is a rational
    (\<^typ>\<open>rat\<close>), and comparisons are the exact ones; counters that are only ever
    incremented are \<^typ>\<open>nat\<close>. Arithmetic is exact, except in the second rendering of
    the zone metrics aggregator, where the float operations are parameters.
  \<^item> A value that may be \<open>None\<close> is an \<open>option\<close>. For the two derived keys
    \<open>parcel_area_sqft\<close> and \<open>lot_coverage_pct\<close> of a property dictionary, \<open>None\<close>
    means that the key is absent (the normaliser of
    \<open>analyze_portsmouth_zoning.py\<close> produces neither).
  \<^item> Strings are \<^typ>\<open>string\<close>; \<open>str.upper\<close> is modelled on ASCII letters.
  \<^item> An insertion-ordered \<open>dict\<close> or \<open>defaultdict\<close> is an association list whose
    keys are kept distinct by the update operation.
  \<^item> A raised exception is the \<open>Inl\<close> branch of a sum type.
\<close>

subsection \<open>Python helpers\<close>

datatype py_error = KeyError | ZeroDivisionError

text \<open>\<open>str.upper\<close> on ASCII: the letters \<open>a\<close>..\<open>z\<close> (codes 97..122) move down by 32.\<close>

definition upper_char :: "char \<Rightarrow> char" where
  "upper_char c =
     (let n = (of_char c :: nat)
      in if 97 \<le> n \<and> n \<le> 122 then char_of (n - 32) else c)"

definition upper :: "string \<Rightarrow> string" where
  "upper s = map upper_char s"

text \<open>\<open>key in s\<close> on strings: \<open>key\<close> occurs in \<open>s\<close> as a contiguous substring.\<close>

fun starts_with :: "string \<Rightarrow> string \<Rightarrow> bool" where
  "starts_with [] s = True"
| "starts_with (k # ks) [] = False"
| "starts_with (k # ks) (c # cs) = (k = c \<and> starts_with ks cs)"

fun str_contains :: "string \<Rightarrow> string \<Rightarrow> bool" where
  "str_contains key [] = (key = [])"
| "str_contains key (c # cs) = (starts_with key (c # cs) \<or> str_contains key cs)"

text \<open>
  \<open>d[k] = f(d[k])\<close> on a \<open>defaultdict\<close> with default value \<open>dflt\<close>: an existing entry
  is changed in place, a new key is appended (Python dictionaries iterate in insertion
  order).
\<close>

fun dd_update :: "'v \<Rightarrow> ('v \<Rightarrow> 'v) \<Rightarrow> 'k \<Rightarrow> ('k \<times> 'v) list \<Rightarrow> ('k \<times> 'v) list" where
  "dd_update dflt f k [] = [(k, f dflt)]"
| "dd_update dflt f k ((k', v) # kvs) =
     (if k' = k then (k', f v) # kvs else (k', v) # dd_update dflt f k kvs)"

text \<open>Reading \<open>d[k]\<close> from a \<open>defaultdict\<close> (or \<open>d.get(k, dflt)\<close> from a \<open>dict\<close>).\<close>

definition dd_get :: "'v \<Rightarrow> ('k \<times> 'v) list \<Rightarrow> 'k \<Rightarrow> 'v" where
  "dd_get dflt kvs k = (case map_of kvs k of None \<Rightarrow> dflt | Some v \<Rightarrow> v)"

subsection \<open>Land-use classifier (\<open>portsmouth_zoning_rules_corrected.py\<close>)\<close>

text \<open>The table is the same, in the same order, in \<open>portsmouth_zoning_rules.py\<close>.\<close>

definition LAND_USE_CLASSIFICATIONS :: "(string \<times> string) list" where
  "LAND_USE_CLASSIFICATIONS =
    [(''SINGLE FAM'', ''single_family''),
     (''TWO FAM'', ''two_family''),
     (''MULTI FAM'', ''multi_family''),
     (''CONDO'', ''multi_family''),
     (''APARTMENT'', ''multi_family''),
     (''COMMERCIAL'', ''commercial''),
     (''RETAIL'', ''retail''),
     (''OFFICE'', ''office''),
     (''INDUSTRIAL'', ''industrial''),
     (''MUNICIPAL'', ''municipal''),
     (''VACANT'', ''vacant''),
     (''MIXED USE'', ''mixed_use'')]"

text \<open>The \<open>for key, value in ...items()\<close> loop with its early \<open>return\<close>.\<close>

fun scan_classifications :: "(string \<times> string) list \<Rightarrow> string \<Rightarrow> string" where
  "scan_classifications [] land_use_upper = ''other''"
| "scan_classifications ((key, value) # rest) land_use_upper =
     (if str_contains key land_use_upper then value
      else scan_classifications rest land_use_upper)"

definition classify_land_use :: "string option \<Rightarrow> string" where
  "classify_land_use land_use_desc =
     (case land_use_desc of
        None \<Rightarrow> ''unknown''
      | Some d \<Rightarrow>
          if d = [] then ''unknown''
          else scan_classifications LAND_USE_CLASSIFICATIONS (upper d))"

subsection \<open>Zoning rule tables\<close>

text \<open>
  One entry of \<open>ZONING_RULES\<close>. A numeric constraint written \<open>None\<close> in the source is
  \<open>None\<close> here; \<open>allowed_uses\<close> is a list of use categories.
\<close>

record zone_rule =
  name :: string
  min_lot_size_sqft :: "rat option"
  min_frontage_ft :: "rat option"
  max_lot_coverage_pct :: "rat option"
  min_open_space_pct :: "rat option"
  front_setback_ft :: "rat option"
  side_setback_ft :: "rat option"
  rear_setback_ft :: "rat option"
  allowed_uses :: "string list"

type_synonym rule_table = "(string \<times> zone_rule) list"

text \<open>\<open>ZONING_RULES\<close> of \<open>portsmouth_zoning_rules_corrected.py\<close>.\<close>

definition ZONING_RULES :: rule_table where
  "ZONING_RULES =
    [(''R'',
      \<lparr>name = ''Residential'',
        min_lot_size_sqft = Some 217800, min_frontage_ft = None,
        max_lot_coverage_pct = Some 5, min_open_space_pct = Some 75,
        front_setback_ft = Some 50, side_setback_ft = Some 20, rear_setback_ft = Some 40,
        allowed_uses = [''single_family'', ''accessory_dwelling'']\<rparr>),
     (''SRA'',
      \<lparr>name = ''Single Residence A'',
        min_lot_size_sqft = Some 43560, min_frontage_ft = Some 150,
        max_lot_coverage_pct = Some 10, min_open_space_pct = Some 50,
        front_setback_ft = Some 30, side_setback_ft = Some 20, rear_setback_ft = Some 40,
        allowed_uses = [''single_family'', ''accessory_dwelling'']\<rparr>),
     (''SRB'',
      \<lparr>name = ''Single Residence B'',
        min_lot_size_sqft = Some 15000, min_frontage_ft = Some 100,
        max_lot_coverage_pct = Some 20, min_open_space_pct = Some 40,
        front_setback_ft = Some 30, side_setback_ft = Some 10, rear_setback_ft = Some 30,
        allowed_uses = [''single_family'', ''accessory_dwelling'']\<rparr>),
     (''GRA'',
      \<lparr>name = ''General Residence A'',
        min_lot_size_sqft = Some 7500, min_frontage_ft = Some 100,
        max_lot_coverage_pct = Some 25, min_open_space_pct = Some 30,
        front_setback_ft = Some 15, side_setback_ft = Some 10, rear_setback_ft = Some 20,
        allowed_uses = [''single_family'', ''two_family'', ''multi_family'', ''accessory_dwelling'']\<rparr>),
     (''GRB'',
      \<lparr>name = ''General Residence B'',
        min_lot_size_sqft = Some 5000, min_frontage_ft = Some 80,
        max_lot_coverage_pct = Some 30, min_open_space_pct = Some 25,
        front_setback_ft = Some 5, side_setback_ft = Some 10, rear_setback_ft = Some 25,
        allowed_uses = [''single_family'', ''two_family'', ''multi_family'', ''accessory_dwelling'']\<rparr>),
     (''GRC'',
      \<lparr>name = ''General Residence C'',
        min_lot_size_sqft = Some 3500, min_frontage_ft = Some 70,
        max_lot_coverage_pct = Some 35, min_open_space_pct = Some 20,
        front_setback_ft = Some 5, side_setback_ft = Some 10, rear_setback_ft = Some 20,
        allowed_uses = [''single_family'', ''two_family'', ''multi_family'', ''accessory_dwelling'']\<rparr>),
     (''MRO'',
      \<lparr>name = ''Mixed Residential Office'',
        min_lot_size_sqft = Some 7500, min_frontage_ft = Some 100,
        max_lot_coverage_pct = Some 40, min_open_space_pct = Some 25,
        front_setback_ft = Some 5, side_setback_ft = Some 10, rear_setback_ft = Some 15,
        allowed_uses = [''single_family'', ''two_family'', ''multi_family'', ''office'', ''mixed_use'']\<rparr>),
     (''MRB'',
      \<lparr>name = ''Mixed Residential Business'',
        min_lot_size_sqft = Some 7500, min_frontage_ft = Some 100,
        max_lot_coverage_pct = Some 40, min_open_space_pct = Some 25,
        front_setback_ft = Some 5, side_setback_ft = Some 10, rear_setback_ft = Some 15,
        allowed_uses = [''single_family'', ''two_family'', ''multi_family'', ''commercial'', ''mixed_use'']\<rparr>),
     (''GA/MH'',
      \<lparr>name = ''Garden Apartment/Mobile Home Park'',
        min_lot_size_sqft = Some 217800, min_frontage_ft = None,
        max_lot_coverage_pct = Some 20, min_open_space_pct = Some 50,
        front_setback_ft = Some 30, side_setback_ft = Some 25, rear_setback_ft = Some 25,
        allowed_uses = [''multi_family'', ''mobile_home'']\<rparr>),
     (''B'',
      \<lparr>name = ''Business'',
        min_lot_size_sqft = Some 20000, min_frontage_ft = Some 100,
        max_lot_coverage_pct = Some 35, min_open_space_pct = Some 15,
        front_setback_ft = Some 20, side_setback_ft = Some 15, rear_setback_ft = Some 15,
        allowed_uses = [''commercial'', ''retail'', ''office'', ''mixed_use'']\<rparr>),
     (''GB'',
      \<lparr>name = ''General Business'',
        min_lot_size_sqft = Some 43560, min_frontage_ft = Some 200,
        max_lot_coverage_pct = Some 30, min_open_space_pct = Some 20,
        front_setback_ft = Some 30, side_setback_ft = Some 30, rear_setback_ft = Some 50,
        allowed_uses = [''commercial'', ''retail'', ''office'', ''mixed_use'']\<rparr>),
     (''G1'',
      \<lparr>name = ''General Business 1'',
        min_lot_size_sqft = Some 43560, min_frontage_ft = Some 200,
        max_lot_coverage_pct = Some 30, min_open_space_pct = Some 20,
        front_setback_ft = Some 30, side_setback_ft = Some 30, rear_setback_ft = Some 50,
        allowed_uses = [''commercial'', ''retail'', ''office'', ''mixed_use'']\<rparr>),
     (''G2'',
      \<lparr>name = ''General Business 2'',
        min_lot_size_sqft = Some 43560, min_frontage_ft = Some 200,
        max_lot_coverage_pct = Some 30, min_open_space_pct = Some 20,
        front_setback_ft = Some 30, side_setback_ft = Some 30, rear_setback_ft = Some 50,
        allowed_uses = [''commercial'', ''retail'', ''office'', ''mixed_use'']\<rparr>),
     (''WB'',
      \<lparr>name = ''Waterfront Business'',
        min_lot_size_sqft = Some 20000, min_frontage_ft = Some 100,
        max_lot_coverage_pct = Some 30, min_open_space_pct = Some 20,
        front_setback_ft = Some 30, side_setback_ft = Some 30, rear_setback_ft = Some 20,
        allowed_uses = [''commercial'', ''retail'', ''office'', ''marine'']\<rparr>),
     (''I'',
      \<lparr>name = ''Industrial'',
        min_lot_size_sqft = Some 87120, min_frontage_ft = Some 200,
        max_lot_coverage_pct = Some 50, min_open_space_pct = Some 20,
        front_setback_ft = Some 70, side_setback_ft = Some 50, rear_setback_ft = Some 50,
        allowed_uses = [''industrial'', ''manufacturing'']\<rparr>),
     (''WI'',
      \<lparr>name = ''Waterfront Industrial'',
        min_lot_size_sqft = Some 87120, min_frontage_ft = Some 200,
        max_lot_coverage_pct = Some 50, min_open_space_pct = Some 20,
        front_setback_ft = Some 70, side_setback_ft = Some 50, rear_setback_ft = Some 50,
        allowed_uses = [''industrial'', ''manufacturing'', ''marine'']\<rparr>),
     (''OR'',
      \<lparr>name = ''Office Research'',
        min_lot_size_sqft = Some 130680, min_frontage_ft = Some 300,
        max_lot_coverage_pct = Some 30, min_open_space_pct = Some 30,
        front_setback_ft = Some 50, side_setback_ft = Some 75, rear_setback_ft = Some 50,
        allowed_uses = [''office'', ''research'', ''technology'']\<rparr>),
     (''M'',
      \<lparr>name = ''Municipal'',
        min_lot_size_sqft = None, min_frontage_ft = None,
        max_lot_coverage_pct = None, min_open_space_pct = None,
        front_setback_ft = None, side_setback_ft = None, rear_setback_ft = None,
        allowed_uses = [''municipal'', ''public'']\<rparr>),
     (''NRP'',
      \<lparr>name = ''Natural Resource Protection'',
        min_lot_size_sqft = Some 217800, min_frontage_ft = Some 150,
        max_lot_coverage_pct = Some 10, min_open_space_pct = Some 70,
        front_setback_ft = Some 50, side_setback_ft = Some 25, rear_setback_ft = Some 50,
        allowed_uses = [''conservation'', ''agriculture'', ''single_family'']\<rparr>)]"

text \<open>\<open>ZONING_RULES\<close> of \<open>portsmouth_zoning_rules.py\<close>, imported by \<open>analyze_with_violations.py\<close>.\<close>

definition ZONING_RULES_original :: rule_table where
  "ZONING_RULES_original =
    [(''SRB'',
      \<lparr>name = ''Single Residence B'',
        min_lot_size_sqft = Some 7500, min_frontage_ft = Some 100,
        max_lot_coverage_pct = Some 25, min_open_space_pct = Some 30,
        front_setback_ft = Some 30, side_setback_ft = Some 10, rear_setback_ft = Some 20,
        allowed_uses = [''single_family'', ''accessory_dwelling'']\<rparr>),
     (''SRA'',
      \<lparr>name = ''Single Residence A'',
        min_lot_size_sqft = Some 15000, min_frontage_ft = Some 125,
        max_lot_coverage_pct = Some 20, min_open_space_pct = Some 40,
        front_setback_ft = Some 35, side_setback_ft = Some 15, rear_setback_ft = Some 25,
        allowed_uses = [''single_family'', ''accessory_dwelling'']\<rparr>),
     (''GRA'',
      \<lparr>name = ''General Residence A'',
        min_lot_size_sqft = Some 5000, min_frontage_ft = Some 50,
        max_lot_coverage_pct = Some 50, min_open_space_pct = Some 20,
        front_setback_ft = Some 20, side_setback_ft = Some 10, rear_setback_ft = Some 20,
        allowed_uses = [''single_family'', ''two_family'', ''multi_family'', ''accessory_dwelling'']\<rparr>),
     (''M'',
      \<lparr>name = ''Municipal'',
        min_lot_size_sqft = None, min_frontage_ft = None,
        max_lot_coverage_pct = None, min_open_space_pct = None,
        front_setback_ft = None, side_setback_ft = None, rear_setback_ft = None,
        allowed_uses = [''municipal'', ''public'']\<rparr>),
     (''R'',
      \<lparr>name = ''Residential'',
        min_lot_size_sqft = Some 10000, min_frontage_ft = Some 100,
        max_lot_coverage_pct = Some 30, min_open_space_pct = Some 30,
        front_setback_ft = Some 30, side_setback_ft = Some 15, rear_setback_ft = Some 25,
        allowed_uses = [''single_family'', ''accessory_dwelling'']\<rparr>),
     (''G1'',
      \<lparr>name = ''General Business 1'',
        min_lot_size_sqft = Some 5000, min_frontage_ft = Some 50,
        max_lot_coverage_pct = Some 70, min_open_space_pct = Some 10,
        front_setback_ft = Some 10, side_setback_ft = Some 0, rear_setback_ft = Some 10,
        allowed_uses = [''commercial'', ''retail'', ''office'', ''mixed_use'']\<rparr>),
     (''NRP'',
      \<lparr>name = ''Natural Resource Protection'',
        min_lot_size_sqft = Some 43560, min_frontage_ft = Some 150,
        max_lot_coverage_pct = Some 10, min_open_space_pct = Some 70,
        front_setback_ft = Some 50, side_setback_ft = Some 25, rear_setback_ft = Some 50,
        allowed_uses = [''conservation'', ''agriculture'', ''single_family'']\<rparr>)]"

subsection \<open>Property records and violations\<close>

text \<open>
  The keys of a property dictionary that the core reads. An entry of the property list
  that is \<open>None\<close> or an empty dictionary is skipped by every loop exactly as a record
  without \<open>zoning\<close> is, so it is represented by such a record.
\<close>

record property =
  parcel_id :: "string option"
  address :: "string option"
  zoning :: "string option"
  land_use_desc :: "string option"
  total_value :: rat
  parcel_area_acres :: rat
  parcel_area_sqft :: "rat option"
  lot_coverage_pct :: "rat option"

text \<open>
  The \<open>description\<close> of a violation is an f-string; it is kept as the values it embeds
  (the measured value and the threshold, or the use and the zone name) rather than as
  formatted text.
\<close>

datatype descr =
    LotSizeBelowMinimum rat rat
  | LotCoverageExceedsMaximum rat rat
  | LandUseNotAllowed string string

text \<open>The type-specific keys: \<open>deficit\<close>, \<open>excess_pct\<close>, or \<open>current_use\<close> with \<open>allowed_uses\<close>.\<close>

datatype payload =
    Deficit rat
  | ExcessPct rat
  | CurrentUse string "string list"

record violation =
  vtype :: string
  severity :: string
  description :: descr
  payload :: payload

subsection \<open>Violation evaluator (\<open>check_zoning_violations\<close>)\<close>

text \<open>\<open>property['parcel_area_sqft']\<close> and \<open>property['lot_coverage_pct']\<close>.\<close>

definition subscript :: "'a option \<Rightarrow> py_error + 'a" where
  "subscript field = (case field of None \<Rightarrow> Inl KeyError | Some x \<Rightarrow> Inr x)"

text \<open>\<open>property.get('lot_coverage_pct', 0)\<close>.\<close>

definition get_lot_coverage :: "property \<Rightarrow> rat" where
  "get_lot_coverage property = (case lot_coverage_pct property of None \<Rightarrow> 0 | Some c \<Rightarrow> c)"

text \<open>
  The block under \<open># Check lot size\<close>: the violations it appends. The test
  \<open>if rules.get('min_lot_size_sqft')\<close> is false for \<open>None\<close> and for \<open>0\<close>.
\<close>

definition check_lot_size :: "zone_rule \<Rightarrow> property \<Rightarrow> py_error + violation list" where
  "check_lot_size rules property =
     (case min_lot_size_sqft rules of
        None \<Rightarrow> Inr []
      | Some minimum \<Rightarrow>
          if minimum = 0 then Inr []
          else
            (case subscript (parcel_area_sqft property) of
               Inl e \<Rightarrow> Inl e
             | Inr area \<Rightarrow>
                 if area < minimum then
                   Inr [\<lparr>vtype = ''undersized_lot'', severity = ''major'',
                         description = LotSizeBelowMinimum area minimum,
                         payload = Deficit (minimum - area)\<rparr>]
                 else Inr []))"

text \<open>
  The block under \<open># Check lot coverage\<close>, as written in
  \<open>reanalyze_with_corrected_rules.py\<close>, \<open>generate_comparative_report.py\<close> and
  \<open>generate_corrected_full_report.py\<close>: the guard reads the coverage with \<open>.get\<close>.
\<close>

definition check_lot_coverage :: "zone_rule \<Rightarrow> property \<Rightarrow> py_error + violation list" where
  "check_lot_coverage rules property =
     (case max_lot_coverage_pct rules of
        None \<Rightarrow> Inr []
      | Some maximum \<Rightarrow>
          if maximum \<noteq> 0 \<and> get_lot_coverage property > 0 then
            (case subscript (lot_coverage_pct property) of
               Inl e \<Rightarrow> Inl e
             | Inr coverage \<Rightarrow>
                 if coverage > maximum then
                   Inr [\<lparr>vtype = ''excess_lot_coverage'', severity = ''major'',
                         description = LotCoverageExceedsMaximum coverage maximum,
                         payload = ExcessPct (coverage - maximum)\<rparr>]
                 else Inr [])
          else Inr [])"

text \<open>
  The same block as written in \<open>analyze_with_violations.py\<close> and \<open>analyze_parallel.py\<close>:
  the guard reads \<open>property['lot_coverage_pct']\<close>, after the short-circuiting test of the
  rule.
\<close>

definition check_lot_coverage_subscript ::
  "zone_rule \<Rightarrow> property \<Rightarrow> py_error + violation list" where
  "check_lot_coverage_subscript rules property =
     (case max_lot_coverage_pct rules of
        None \<Rightarrow> Inr []
      | Some maximum \<Rightarrow>
          if maximum = 0 then Inr []
          else
            (case subscript (lot_coverage_pct property) of
               Inl e \<Rightarrow> Inl e
             | Inr coverage \<Rightarrow>
                 if coverage > 0 \<and> coverage > maximum then
                   Inr [\<lparr>vtype = ''excess_lot_coverage'', severity = ''major'',
                         description = LotCoverageExceedsMaximum coverage maximum,
                         payload = ExcessPct (coverage - maximum)\<rparr>]
                 else Inr []))"

text \<open>The block under \<open># Check land use compatibility\<close>; it cannot raise.\<close>

definition check_land_use :: "zone_rule \<Rightarrow> string \<Rightarrow> violation list" where
  "check_land_use rules land_use =
     (if allowed_uses rules \<noteq> [] \<and> land_use \<noteq> ''unknown'' \<and> land_use \<noteq> ''vacant'' then
        if land_use \<notin> set (allowed_uses rules) then
          [\<lparr>vtype = ''incompatible_use'', severity = ''critical'',
            description = LandUseNotAllowed land_use (name rules),
            payload = CurrentUse land_use (allowed_uses rules)\<rparr>]
        else []
      else [])"

text \<open>
  The body of \<open>check_zoning_violations\<close>, with the module constant \<open>ZONING_RULES\<close> and the
  lot-coverage block as parameters: the three blocks run in order and each appends to
  \<open>violations\<close>; an exception in one of them leaves the function.
\<close>

definition check_violations_in ::
  "rule_table \<Rightarrow> (zone_rule \<Rightarrow> property \<Rightarrow> py_error + violation list)
     \<Rightarrow> property \<Rightarrow> py_error + violation list" where
  "check_violations_in table coverage_block property =
     (case zoning property of
        None \<Rightarrow> Inr []
      | Some zone \<Rightarrow>
          if zone = [] then Inr []
          else
            (case map_of table zone of
               None \<Rightarrow> Inr []
             | Some rules \<Rightarrow>
                 let land_use = classify_land_use (land_use_desc property)
                 in (case check_lot_size rules property of
                       Inl e \<Rightarrow> Inl e
                     | Inr size_violations \<Rightarrow>
                         (case coverage_block rules property of
                            Inl e \<Rightarrow> Inl e
                          | Inr coverage_violations \<Rightarrow>
                              Inr (size_violations @ coverage_violations
                                   @ check_land_use rules land_use)))))"

text \<open>\<open>check_zoning_violations\<close> of \<open>reanalyze_with_corrected_rules.py\<close>.\<close>

definition check_zoning_violations :: "property \<Rightarrow> py_error + violation list" where
  "check_zoning_violations = check_violations_in ZONING_RULES check_lot_coverage"

text \<open>\<open>check_zoning_violations\<close> of \<open>analyze_with_violations.py\<close>.\<close>

definition awv_check_zoning_violations :: "property \<Rightarrow> py_error + violation list" where
  "awv_check_zoning_violations =
     check_violations_in ZONING_RULES_original check_lot_coverage_subscript"

subsection \<open>Zone metrics aggregator (\<open>calculate_metrics\<close>)\<close>

text \<open>
  \<open>round(x, ndigits)\<close> in exact arithmetic: the nearest multiple of \<open>10 ** -ndigits\<close>,
  a tie going to the even neighbour. Python computes this value from the exact value of
  the float and returns the float nearest to it.
\<close>

definition round_half_even :: "rat \<Rightarrow> int" where
  "round_half_even x =
     (let f = \<lfloor>x\<rfloor>; d = x - of_int f
      in if d < 1 / 2 then f
         else if 1 / 2 < d then f + 1
         else if even f then f else f + 1)"

definition py_round :: "rat \<Rightarrow> nat \<Rightarrow> rat" where
  "py_round x ndigits = of_int (round_half_even (x * 10 ^ ndigits)) / 10 ^ ndigits"

text \<open>One value of \<open>zone_data\<close>, and the default the \<open>defaultdict\<close> creates.\<close>

record zone_acc =
  acc_total_acres :: rat
  acc_total_value :: rat
  acc_parcel_count :: nat
  acc_land_uses :: "(string \<times> nat) list"

definition new_zone_acc :: zone_acc where
  "new_zone_acc =
     \<lparr>acc_total_acres = 0, acc_total_value = 0, acc_parcel_count = 0, acc_land_uses = []\<rparr>"

text \<open>The four \<open>+=\<close> statements of the loop body, on the entry of the property's zone.\<close>

definition add_parcel :: "property \<Rightarrow> zone_acc \<Rightarrow> zone_acc" where
  "add_parcel prop data =
     (let acres = parcel_area_acres prop;
          value = total_value prop;
          land_use = (case land_use_desc prop of
                        None \<Rightarrow> ''Unknown''
                      | Some d \<Rightarrow> if d = [] then ''Unknown'' else d)
      in \<lparr>acc_total_acres = acc_total_acres data + acres,
          acc_total_value = acc_total_value data + value,
          acc_parcel_count = acc_parcel_count data + 1,
          acc_land_uses = dd_update 0 (\<lambda>n. n + 1) land_use (acc_land_uses data)\<rparr>)"

text \<open>
  The first loop: the state is \<open>(zone_data, total_acres)\<close>; a record whose \<open>zoning\<close> is
  absent or empty is skipped. The rule table is not consulted. Sums are exact here;
  \<open>accumulate_zones_on\<close> below leaves the float addition open.
\<close>

fun accumulate_zones ::
  "property list \<Rightarrow> (string \<times> zone_acc) list \<times> rat \<Rightarrow> (string \<times> zone_acc) list \<times> rat" where
  "accumulate_zones [] state = state"
| "accumulate_zones (prop # properties) (zone_data, total_acres) =
     (case zoning prop of
        None \<Rightarrow> accumulate_zones properties (zone_data, total_acres)
      | Some zone \<Rightarrow>
          if zone = [] then accumulate_zones properties (zone_data, total_acres)
          else accumulate_zones properties
                 (dd_update new_zone_acc (add_parcel prop) zone zone_data,
                  total_acres + parcel_area_acres prop))"

text \<open>One value of \<open>results['zones']\<close>.\<close>

record zone_metrics =
  z_total_acres :: rat
  z_percent_of_land :: rat
  z_total_value :: rat
  z_revenue_density :: rat
  z_parcel_count :: nat
  z_land_uses :: "(string \<times> nat) list"

text \<open>
  The body of the second loop. Both divisions stand under a guard \<open>> 0\<close> on their
  denominator.
\<close>

definition zone_result :: "rat \<Rightarrow> zone_acc \<Rightarrow> zone_metrics" where
  "zone_result total_acres data =
     (let pct_of_land =
            (if total_acres > 0 then acc_total_acres data / total_acres * 100 else 0);
          revenue_density =
            (if acc_total_acres data > 0 then acc_total_value data / acc_total_acres data
             else 0)
      in \<lparr>z_total_acres = py_round (acc_total_acres data) 2,
          z_percent_of_land = py_round pct_of_land 2,
          z_total_value = acc_total_value data,
          z_revenue_density = py_round revenue_density 2,
          z_parcel_count = acc_parcel_count data,
          z_land_uses = acc_land_uses data\<rparr>)"

text \<open>\<open>max(items, key=revenue_density)\<close>: the first entry of maximal density.\<close>

fun max_by_density ::
  "string \<times> zone_metrics \<Rightarrow> (string \<times> zone_metrics) list \<Rightarrow> string \<times> zone_metrics" where
  "max_by_density best [] = best"
| "max_by_density best (item # items) =
     max_by_density
       (if z_revenue_density (snd item) > z_revenue_density (snd best) then item else best)
       items"

record metrics =
  total_acres :: rat
  zones :: "(string \<times> zone_metrics) list"
  most_revenue_dense_zone :: "(string \<times> rat) option"

text \<open>
  \<open>calculate_metrics\<close> of \<open>analyze_portsmouth_zoning.py\<close>; \<open>calculate_zone_metrics\<close> of
  \<open>generate_comparative_report.py\<close>, \<open>generate_corrected_full_report.py\<close> and
  \<open>analyze_parallel.py\<close> has the same text.
\<close>

definition calculate_metrics :: "property list \<Rightarrow> metrics" where
  "calculate_metrics properties =
     (let (zone_data, total_acres) = accumulate_zones properties ([], 0);
          results_zones = map (\<lambda>(zone, data). (zone, zone_result total_acres data)) zone_data
      in \<lparr>total_acres = total_acres,
          zones = results_zones,
          most_revenue_dense_zone =
            (case results_zones of
               [] \<Rightarrow> None
             | item # items \<Rightarrow>
                 (let most_dense_zone = max_by_density item items
                  in Some (fst most_dense_zone,
                           py_round (z_revenue_density (snd most_dense_zone)) 2)))\<rparr>)"

definition calculate_zone_metrics :: "property list \<Rightarrow> metrics" where
  "calculate_zone_metrics = calculate_metrics"

subsection \<open>Zone metrics aggregator with the float arithmetic left open\<close>

text \<open>
  Every finite float is a rational number and comparisons of floats are exact, but the
  sum, the quotient, the product and the \<open>round\<close> of floats are rounded to a float
  again. \<open>calculate_metrics\<close> above computes with the exact operations. The definitions
  below are the same function once more, line by line, with these four operations as
  parameters: what is proved of them for every choice of the operations holds of the
  floats of the code, whatever their rounding.
\<close>

record float_ops =
  f_add :: "rat \<Rightarrow> rat \<Rightarrow> rat"
  f_div :: "rat \<Rightarrow> rat \<Rightarrow> rat"
  f_mul :: "rat \<Rightarrow> rat \<Rightarrow> rat"
  f_round :: "rat \<Rightarrow> nat \<Rightarrow> rat"


definition add_parcel_on :: "float_ops \<Rightarrow> property \<Rightarrow> zone_acc \<Rightarrow> zone_acc" where
  "add_parcel_on ops prop data =
     (let acres = parcel_area_acres prop;
          value = total_value prop;
          land_use = (case land_use_desc prop of
                        None \<Rightarrow> ''Unknown''
                      | Some d \<Rightarrow> if d = [] then ''Unknown'' else d)
      in \<lparr>acc_total_acres = f_add ops (acc_total_acres data) acres,
          acc_total_value = f_add ops (acc_total_value data) value,
          acc_parcel_count = acc_parcel_count data + 1,
          acc_land_uses = dd_update 0 (\<lambda>n. n + 1) land_use (acc_land_uses data)\<rparr>)"

fun accumulate_zones_on ::
  "float_ops \<Rightarrow> property list \<Rightarrow> (string \<times> zone_acc) list \<times> rat
     \<Rightarrow> (string \<times> zone_acc) list \<times> rat" where
  "accumulate_zones_on ops [] state = state"
| "accumulate_zones_on ops (prop # properties) (zone_data, grand_total) =
     (case zoning prop of
        None \<Rightarrow> accumulate_zones_on ops properties (zone_data, grand_total)
      | Some zone \<Rightarrow>
          if zone = [] then accumulate_zones_on ops properties (zone_data, grand_total)
          else accumulate_zones_on ops properties
                 (dd_update new_zone_acc (add_parcel_on ops prop) zone zone_data,
                  f_add ops grand_total (parcel_area_acres prop)))"

definition zone_result_on :: "float_ops \<Rightarrow> rat \<Rightarrow> zone_acc \<Rightarrow> zone_metrics" where
  "zone_result_on ops grand_total data =
     (let pct_of_land =
            (if grand_total > 0
             then f_mul ops (f_div ops (acc_total_acres data) grand_total) 100 else 0);
          revenue_density =
            (if acc_total_acres data > 0
             then f_div ops (acc_total_value data) (acc_total_acres data) else 0)
      in \<lparr>z_total_acres = f_round ops (acc_total_acres data) 2,
          z_percent_of_land = f_round ops pct_of_land 2,
          z_total_value = acc_total_value data,
          z_revenue_density = f_round ops revenue_density 2,
          z_parcel_count = acc_parcel_count data,
          z_land_uses = acc_land_uses data\<rparr>)"

definition calculate_metrics_on :: "float_ops \<Rightarrow> property list \<Rightarrow> metrics" where
  "calculate_metrics_on ops properties =
     (let (zone_data, total_acres) = accumulate_zones_on ops properties ([], 0);
          results_zones =
            map (\<lambda>(zone, data). (zone, zone_result_on ops total_acres data)) zone_data
      in \<lparr>total_acres = total_acres,
          zones = results_zones,
          most_revenue_dense_zone =
            (case results_zones of
               [] \<Rightarrow> None
             | item # items \<Rightarrow>
                 (let most_dense_zone = max_by_density item items
                  in Some (fst most_dense_zone,
                           f_round ops (z_revenue_density (snd most_dense_zone)) 2)))\<rparr>)"

text \<open>The running sum \<open>s = 0; for x in xs: s += x\<close>.\<close>

definition running_sum :: "float_ops \<Rightarrow> rat list \<Rightarrow> rat" where
  "running_sum ops xs = foldl (f_add ops) 0 xs"

subsection \<open>Violation aggregator (\<open>analyze_violations\<close>, \<open>analyze_properties\<close>)\<close>

text \<open>One entry of a zone's \<open>examples\<close> list.\<close>

record example =
  ex_address :: "string option"
  ex_parcel_id :: "string option"
  ex_violations :: "violation list"

text \<open>One value of \<open>violations_by_zone\<close>, and the default the \<open>defaultdict\<close> creates.\<close>

record zone_summary =
  total_parcels :: nat
  parcels_with_violations :: nat
  violations_by_type :: "(string \<times> nat) list"
  examples :: "example list"

definition new_zone_summary :: zone_summary where
  "new_zone_summary =
     \<lparr>total_parcels = 0, parcels_with_violations = 0, violations_by_type = [], examples = []\<rparr>"

record analysis =
  violations_by_zone :: "(string \<times> zone_summary) list"
  all_violations :: "(property \<times> violation list) list"

text \<open>\<open>violations_by_zone[zone]['total_parcels'] += 1\<close>.\<close>

definition count_parcel :: "zone_summary \<Rightarrow> zone_summary" where
  "count_parcel s = s\<lparr>total_parcels := total_parcels s + 1\<rparr>"

text \<open>
  The body of \<open>if violations:\<close> on the zone's entry: one more parcel with violations, one
  count per violation under its type, and an example only while the zone has fewer than
  \<open>cap\<close> of them. The cap is the literal 5 in \<open>analyze_properties\<close> and 10 in
  \<open>analyze_violations\<close>.
\<close>

definition record_violations ::
  "nat \<Rightarrow> property \<Rightarrow> violation list \<Rightarrow> zone_summary \<Rightarrow> zone_summary" where
  "record_violations cap prop violations s =
     \<lparr>total_parcels = total_parcels s,
      parcels_with_violations = parcels_with_violations s + 1,
      violations_by_type =
        fold (\<lambda>v. dd_update 0 (\<lambda>n. n + 1) (vtype v)) violations (violations_by_type s),
      examples =
        (if length (examples s) < cap then
           examples s @ [\<lparr>ex_address = address prop, ex_parcel_id = parcel_id prop,
                          ex_violations = violations\<rparr>]
         else examples s)\<rparr>"

text \<open>
  The body of the loop over the properties, with the example cap and the evaluator as
  parameters: a record whose \<open>zoning\<close> is absent or empty is skipped (\<open>continue\<close>); an
  exception of the evaluator leaves the function.
\<close>

definition analyze_step ::
  "nat \<Rightarrow> (property \<Rightarrow> py_error + violation list) \<Rightarrow> property \<Rightarrow> analysis
     \<Rightarrow> py_error + analysis" where
  "analyze_step cap check prop state =
     (case zoning prop of
        None \<Rightarrow> Inr state
      | Some zone \<Rightarrow>
          if zone = [] then Inr state
          else
            (let counted = dd_update new_zone_summary count_parcel zone
                             (violations_by_zone state)
             in case check prop of
                  Inl e \<Rightarrow> Inl e
                | Inr violations \<Rightarrow>
                    if violations = [] then
                      Inr \<lparr>violations_by_zone = counted,
                           all_violations = all_violations state\<rparr>
                    else
                      Inr \<lparr>violations_by_zone =
                             dd_update new_zone_summary
                               (record_violations cap prop violations) zone counted,
                           all_violations = all_violations state @ [(prop, violations)]\<rparr>))"

fun analyze_loop ::
  "nat \<Rightarrow> (property \<Rightarrow> py_error + violation list) \<Rightarrow> property list \<Rightarrow> analysis
     \<Rightarrow> py_error + analysis" where
  "analyze_loop cap check [] state = Inr state"
| "analyze_loop cap check (prop # properties) state =
     (case analyze_step cap check prop state of
        Inl e \<Rightarrow> Inl e
      | Inr state' \<Rightarrow> analyze_loop cap check properties state')"

definition analyze_with ::
  "nat \<Rightarrow> (property \<Rightarrow> py_error + violation list) \<Rightarrow> property list
     \<Rightarrow> py_error + analysis" where
  "analyze_with cap check properties =
     analyze_loop cap check properties \<lparr>violations_by_zone = [], all_violations = []\<rparr>"

text \<open>\<open>analyze_violations\<close> of \<open>reanalyze_with_corrected_rules.py\<close>.\<close>

definition analyze_violations :: "property list \<Rightarrow> py_error + analysis" where
  "analyze_violations = analyze_with 10 check_zoning_violations"

text \<open>\<open>analyze_properties\<close> of \<open>analyze_with_violations.py\<close>.\<close>

definition analyze_properties :: "property list \<Rightarrow> py_error + analysis" where
  "analyze_properties = analyze_with 5 awv_check_zoning_violations"

text \<open>\<open>violations_by_zone[zone]\<close>, read from the \<open>defaultdict\<close> the loop fills.\<close>

definition zone_entry :: "analysis \<Rightarrow> string \<Rightarrow> zone_summary" where
  "zone_entry a zone = dd_get new_zone_summary (violations_by_zone a) zone"

text \<open>The counts of a zone entry, without its examples; and those of all zones, in order.\<close>

definition counts :: "zone_summary \<Rightarrow> nat \<times> nat \<times> (string \<times> nat) list" where
  "counts s = (total_parcels s, parcels_with_violations s, violations_by_type s)"

definition zone_counts :: "analysis \<Rightarrow> (string \<times> nat \<times> nat \<times> (string \<times> nat) list) list" where
  "zone_counts a = map (\<lambda>(zone, s). (zone, counts s)) (violations_by_zone a)"

text \<open>The number of violations of type \<open>t\<close> that the evaluator returns for a property.\<close>

definition violations_of_type ::
  "(property \<Rightarrow> py_error + violation list) \<Rightarrow> string \<Rightarrow> property \<Rightarrow> nat" where
  "violations_of_type check t prop =
     (case check prop of Inl e \<Rightarrow> 0 | Inr vs \<Rightarrow> length (filter (\<lambda>v. vtype v = t) vs))"

subsection \<open>Comparative layer (\<open>generate_residential_comparison\<close>)\<close>

text \<open>Python's \<open>a / b\<close>, which raises on a zero divisor.\<close>

definition py_div :: "rat \<Rightarrow> rat \<Rightarrow> py_error + rat" where
  "py_div a b = (if b = 0 then Inl ZeroDivisionError else Inr (a / b))"

text \<open>The conditional expressions \<open>a / b if b > 0 else 0\<close> and \<open>(a / b * 100) if b > 0 else 0\<close>.\<close>

definition div_if_positive :: "rat \<Rightarrow> rat \<Rightarrow> py_error + rat" where
  "div_if_positive a b = (if b > 0 then py_div a b else Inr 0)"

definition pct_if_positive :: "rat \<Rightarrow> rat \<Rightarrow> py_error + rat" where
  "pct_if_positive a b =
     (if b > 0 then (case py_div a b of Inl e \<Rightarrow> Inl e | Inr q \<Rightarrow> Inr (q * 100)) else Inr 0)"

text \<open>Sequencing of statements that may raise.\<close>

definition then_do :: "py_error + 'a \<Rightarrow> ('a \<Rightarrow> py_error + 'b) \<Rightarrow> py_error + 'b" where
  "then_do m f = (case m of Inl e \<Rightarrow> Inl e | Inr x \<Rightarrow> f x)"

text \<open>The sums kept in \<open>sf_stats\<close> and \<open>mf_stats\<close>.\<close>

record group_stats =
  gs_total_acres :: rat
  gs_total_parcels :: nat
  gs_total_value :: rat
  gs_violations :: nat
  gs_undersized_lots :: nat
  gs_incompatible_uses :: nat

definition new_group_stats :: group_stats where
  "new_group_stats =
     \<lparr>gs_total_acres = 0, gs_total_parcels = 0, gs_total_value = 0,
      gs_violations = 0, gs_undersized_lots = 0, gs_incompatible_uses = 0\<rparr>"

text \<open>
  The body of \<open>for zone in single_family_zones\<close> (and of the loop over
  \<open>multi_family_zones\<close>, which has the same text): both \<open>if zone in ...\<close> blocks.
\<close>

definition add_zone_to_group :: "metrics \<Rightarrow> analysis \<Rightarrow> string \<Rightarrow> group_stats \<Rightarrow> group_stats" where
  "add_zone_to_group metrics violations_analysis zone stats =
     (let stats1 =
            (case map_of (zones metrics) zone of
               None \<Rightarrow> stats
             | Some data \<Rightarrow>
                 stats\<lparr>gs_total_acres := gs_total_acres stats + z_total_acres data,
                       gs_total_parcels := gs_total_parcels stats + z_parcel_count data,
                       gs_total_value := gs_total_value stats + z_total_value data\<rparr>)
      in case map_of (violations_by_zone violations_analysis) zone of
           None \<Rightarrow> stats1
         | Some vdata \<Rightarrow>
             stats1\<lparr>gs_violations := gs_violations stats1 + parcels_with_violations vdata,
                    gs_undersized_lots :=
                      gs_undersized_lots stats1
                      + dd_get 0 (violations_by_type vdata) ''undersized_lot'',
                    gs_incompatible_uses :=
                      gs_incompatible_uses stats1
                      + dd_get 0 (violations_by_type vdata) ''incompatible_use''\<rparr>)"

definition aggregate_group :: "string list \<Rightarrow> metrics \<Rightarrow> analysis \<Rightarrow> group_stats" where
  "aggregate_group zone_list metrics violations_analysis =
     fold (add_zone_to_group metrics violations_analysis) zone_list new_group_stats"

definition single_family_zones :: "string list" where
  "single_family_zones = [''R'', ''SRA'', ''SRB'']"

definition multi_family_zones :: "string list" where
  "multi_family_zones = [''GRA'', ''GRB'', ''GRC'']"

text \<open>The numbers that \<open>generate_residential_comparison\<close> computes and formats.\<close>

record comparison =
  sf_stats :: group_stats
  mf_stats :: group_stats
  sf_revenue_density :: rat
  mf_revenue_density :: rat
  sf_violation_rate :: rat
  mf_violation_rate :: rat
  sf_parcels_per_acre :: rat
  mf_parcels_per_acre :: rat
  land_ratio :: rat
  value_ratio :: rat
  value_factor_shown :: rat
  density_ratio :: rat
  parcel_density_ratio :: rat
  violation_rate_diff :: rat
  sf_pct :: rat
  mf_pct :: rat

text \<open>
  \<open>generate_residential_comparison\<close> of \<open>generate_comparative_report.py\<close>, without the
  formatting: the divisions in the order in which the function evaluates them. The
  value that the report shows under \<open>Total Property Value\<close> is \<open>value_ratio\<close> when it
  exceeds 1 and \<open>1/value_ratio\<close> otherwise; that division has no guard.
\<close>

definition generate_residential_comparison :: "metrics \<Rightarrow> analysis \<Rightarrow> py_error + comparison" where
  "generate_residential_comparison metrics violations_analysis =
     (let sf = aggregate_group single_family_zones metrics violations_analysis;
          mf = aggregate_group multi_family_zones metrics violations_analysis
      in
      then_do (div_if_positive (gs_total_value sf) (gs_total_acres sf)) (\<lambda>sf_density.
      then_do (div_if_positive (gs_total_value mf) (gs_total_acres mf)) (\<lambda>mf_density.
      then_do (pct_if_positive (of_nat (gs_violations sf)) (of_nat (gs_total_parcels sf))) (\<lambda>sf_rate.
      then_do (pct_if_positive (of_nat (gs_violations mf)) (of_nat (gs_total_parcels mf))) (\<lambda>mf_rate.
      then_do (div_if_positive (of_nat (gs_total_parcels sf)) (gs_total_acres sf)) (\<lambda>sf_ppa.
      then_do (div_if_positive (of_nat (gs_total_parcels mf)) (gs_total_acres mf)) (\<lambda>mf_ppa.
      then_do (div_if_positive (gs_total_acres sf) (gs_total_acres mf)) (\<lambda>land.
      then_do (div_if_positive (gs_total_value sf) (gs_total_value mf)) (\<lambda>val.
      then_do (div_if_positive mf_density sf_density) (\<lambda>density.
      then_do (div_if_positive mf_ppa sf_ppa) (\<lambda>parcel_density.
      then_do (if val > 1 then Inr val else py_div 1 val) (\<lambda>shown.
      then_do (pct_if_positive (gs_total_acres sf) (gs_total_acres sf + gs_total_acres mf)) (\<lambda>sf_share.
      then_do (pct_if_positive (gs_total_acres mf) (gs_total_acres sf + gs_total_acres mf)) (\<lambda>mf_share.
        Inr \<lparr>sf_stats = sf, mf_stats = mf,
             sf_revenue_density = sf_density, mf_revenue_density = mf_density,
             sf_violation_rate = sf_rate, mf_violation_rate = mf_rate,
             sf_parcels_per_acre = sf_ppa, mf_parcels_per_acre = mf_ppa,
             land_ratio = land, value_ratio = val, value_factor_shown = shown,
             density_ratio = density, parcel_density_ratio = parcel_density,
             violation_rate_diff =
               (if sf_rate > mf_rate then sf_rate - mf_rate else mf_rate - sf_rate),
             sf_pct = sf_share, mf_pct = mf_share\<rparr>))))))))))))))"

subsection \<open>Example records\<close>

text \<open>
  A parcel as the normaliser of \<open>analyze_parallel.py\<close> produces it, with the zone, the
  land-use description, the area in square feet and the lot coverage left open.
\<close>

definition example_parcel :: "string \<Rightarrow> string \<Rightarrow> rat \<Rightarrow> rat \<Rightarrow> property" where
  "example_parcel zone desc sqft coverage =
     \<lparr>parcel_id = Some ''0123-0045'', address = Some ''1 EXAMPLE ST'',
      zoning = Some zone, land_use_desc = Some desc,
      total_value = 300000, parcel_area_acres = sqft / 43560,
      parcel_area_sqft = Some sqft, lot_coverage_pct = Some coverage\<rparr>"

section \<open>Properties\<close>

subsection \<open>Facts about the helpers\<close>

lemma starts_with_prefix: "starts_with k s = prefix k s"
  by (induction k s rule: starts_with.induct) auto

lemma str_contains_sublist: "str_contains k s = sublist k s"
  by (induction s) (auto simp: starts_with_prefix sublist_Cons_right)

lemma scan_first_match:
  assumes "i < length tab"
    and "sublist (fst (tab ! i)) s"
    and "\<forall>j<i. \<not> sublist (fst (tab ! j)) s"
  shows "scan_classifications tab s = snd (tab ! i)"
  using assms
proof (induction tab s arbitrary: i rule: scan_classifications.induct)
  case (1 s)
  then show ?case by simp
next
  case (2 key val rest s)
  show ?case
  proof (cases i)
    case 0
    with "2.prems" show ?thesis by (simp add: str_contains_sublist)
  next
    case (Suc n)
    with "2.prems" have no: "\<not> sublist key s" by auto
    from Suc "2.prems" have "n < length rest" "sublist (fst (rest ! n)) s"
      "\<forall>j<n. \<not> sublist (fst (rest ! j)) s" by auto
    with "2.IH" no have "scan_classifications rest s = snd (rest ! n)"
      by (simp add: str_contains_sublist)
    with no Suc show ?thesis by (simp add: str_contains_sublist)
  qed
qed

lemma scan_no_match:
  "\<forall>i<length tab. \<not> sublist (fst (tab ! i)) s \<Longrightarrow> scan_classifications tab s = ''other''"
proof (induction tab s rule: scan_classifications.induct)
  case (1 s)
  then show ?case by simp
next
  case (2 key val rest s)
  from "2.prems" have "\<not> sublist key s" by auto
  moreover from "2.prems" have "\<forall>i<length rest. \<not> sublist (fst (rest ! i)) s" by auto
  ultimately show ?case using "2.IH" by (simp add: str_contains_sublist)
qed

subsection \<open>The classifier\<close>

text \<open>
  C5. \<open>classify_land_use\<close> returns \<open>unknown\<close> for a null or empty description; otherwise
  it returns the category of the first key, in the order of the classification table,
  that occurs as a substring of the uppercased description, and \<open>other\<close> when no key
  occurs. (Being a HOL function, it is total and deterministic.)
\<close>

theorem classify_land_use_first_match:
  "classify_land_use None = ''unknown''
   \<and> classify_land_use (Some []) = ''unknown''
   \<and> (\<forall>d i. d \<noteq> [] \<and> i < length LAND_USE_CLASSIFICATIONS
        \<and> sublist (fst (LAND_USE_CLASSIFICATIONS ! i)) (upper d)
        \<and> (\<forall>j<i. \<not> sublist (fst (LAND_USE_CLASSIFICATIONS ! j)) (upper d))
        \<longrightarrow> classify_land_use (Some d) = snd (LAND_USE_CLASSIFICATIONS ! i))
   \<and> (\<forall>d. d \<noteq> []
        \<and> (\<forall>i<length LAND_USE_CLASSIFICATIONS.
              \<not> sublist (fst (LAND_USE_CLASSIFICATIONS ! i)) (upper d))
        \<longrightarrow> classify_land_use (Some d) = ''other'')"
  by (auto simp: classify_land_use_def scan_first_match scan_no_match)


theorem classify_land_use_first_match_witness:
  "''Condo Apartment'' \<noteq> [] \<and> 3 < length LAND_USE_CLASSIFICATIONS
   \<and> sublist (fst (LAND_USE_CLASSIFICATIONS ! 3)) (upper ''Condo Apartment'')
   \<and> \<not> sublist (fst (LAND_USE_CLASSIFICATIONS ! 0)) (upper ''Condo Apartment'')
   \<and> \<not> sublist (fst (LAND_USE_CLASSIFICATIONS ! 1)) (upper ''Condo Apartment'')
   \<and> \<not> sublist (fst (LAND_USE_CLASSIFICATIONS ! 2)) (upper ''Condo Apartment'')
   \<and> classify_land_use (Some ''Condo Apartment'') = ''multi_family''
   \<and> ''Cemetery'' \<noteq> []
   \<and> list_all (\<lambda>kv. \<not> sublist (fst kv) (upper ''Cemetery'')) LAND_USE_CLASSIFICATIONS
   \<and> classify_land_use (Some ''Cemetery'') = ''other''"
proof -
  have lt3: "\<And>j::nat. j < 3 \<longleftrightarrow> j = 0 \<or> j = 1 \<or> j = 2" by arith
  have h1: "(3::nat) < length LAND_USE_CLASSIFICATIONS"
    by (simp add: LAND_USE_CLASSIFICATIONS_def)
  have h2: "sublist (fst (LAND_USE_CLASSIFICATIONS ! 3)) (upper ''Condo Apartment'')"
    by code_simp
  have n: "\<not> sublist (fst (LAND_USE_CLASSIFICATIONS ! 0)) (upper ''Condo Apartment'')"
    "\<not> sublist (fst (LAND_USE_CLASSIFICATIONS ! 1)) (upper ''Condo Apartment'')"
    "\<not> sublist (fst (LAND_USE_CLASSIFICATIONS ! 2)) (upper ''Condo Apartment'')"
    by code_simp+
  then have h3: "\<forall>j<3. \<not> sublist (fst (LAND_USE_CLASSIFICATIONS ! j)) (upper ''Condo Apartment'')"
    by (auto simp: lt3)
  have l: "list_all (\<lambda>kv. \<not> sublist (fst kv) (upper ''Cemetery'')) LAND_USE_CLASSIFICATIONS"
    by code_simp
  then have h4: "\<forall>i<length LAND_USE_CLASSIFICATIONS.
      \<not> sublist (fst (LAND_USE_CLASSIFICATIONS ! i)) (upper ''Cemetery'')"
    by (simp add: list_all_length)
  have v: "snd (LAND_USE_CLASSIFICATIONS ! 3) = ''multi_family''"
    by (simp add: LAND_USE_CLASSIFICATIONS_def)
  have "classify_land_use (Some ''Condo Apartment'') = snd (LAND_USE_CLASSIFICATIONS ! 3)"
    using classify_land_use_first_match h1 h2 h3 by blast
  moreover have "classify_land_use (Some ''Cemetery'') = ''other''"
    using classify_land_use_first_match h4 by blast
  ultimately show ?thesis using h1 h2 n l v by simp
qed

subsection \<open>The three blocks of the evaluator\<close>

lemma check_lot_size_present:
  "parcel_area_sqft p = Some a \<Longrightarrow>
   check_lot_size r p =
     Inr (case min_lot_size_sqft r of
            None \<Rightarrow> []
          | Some m \<Rightarrow>
              if m \<noteq> 0 \<and> a < m then
                [\<lparr>vtype = ''undersized_lot'', severity = ''major'',
                  description = LotSizeBelowMinimum a m, payload = Deficit (m - a)\<rparr>]
              else [])"
  by (simp add: check_lot_size_def subscript_def split: option.splits)

lemma check_lot_coverage_total:
  "check_lot_coverage r p =
     Inr (case max_lot_coverage_pct r of
            None \<Rightarrow> []
          | Some m \<Rightarrow>
              if m \<noteq> 0 \<and> 0 < get_lot_coverage p \<and> m < get_lot_coverage p then
                [\<lparr>vtype = ''excess_lot_coverage'', severity = ''major'',
                  description = LotCoverageExceedsMaximum (get_lot_coverage p) m,
                  payload = ExcessPct (get_lot_coverage p - m)\<rparr>]
              else [])"
  by (simp add: check_lot_coverage_def subscript_def get_lot_coverage_def split: option.splits)

lemma check_lot_coverage_subscript_present:
  "lot_coverage_pct p = Some c \<Longrightarrow>
   check_lot_coverage_subscript r p =
     Inr (case max_lot_coverage_pct r of
            None \<Rightarrow> []
          | Some m \<Rightarrow>
              if m \<noteq> 0 \<and> 0 < c \<and> m < c then
                [\<lparr>vtype = ''excess_lot_coverage'', severity = ''major'',
                  description = LotCoverageExceedsMaximum c m, payload = ExcessPct (c - m)\<rparr>]
              else [])"
  by (simp add: check_lot_coverage_subscript_def subscript_def split: option.splits)

lemma check_lot_size_shape:
  "check_lot_size r p = Inr vs \<Longrightarrow>
   length vs \<le> 1 \<and> (\<forall>v\<in>set vs. vtype v = ''undersized_lot'')"
  by (auto simp: check_lot_size_def subscript_def split: option.splits if_splits)

lemma check_lot_coverage_shape:
  "check_lot_coverage r p = Inr vs \<Longrightarrow>
   length vs \<le> 1 \<and> (\<forall>v\<in>set vs. vtype v = ''excess_lot_coverage'')"
  by (auto simp: check_lot_coverage_def subscript_def split: option.splits if_splits)

lemma check_lot_coverage_subscript_shape:
  "check_lot_coverage_subscript r p = Inr vs \<Longrightarrow>
   length vs \<le> 1 \<and> (\<forall>v\<in>set vs. vtype v = ''excess_lot_coverage'')"
  by (auto simp: check_lot_coverage_subscript_def subscript_def split: option.splits if_splits)

lemma check_land_use_shape:
  "length (check_land_use r lu) \<le> 1 \<and> (\<forall>v\<in>set (check_land_use r lu). vtype v = ''incompatible_use'')"
  by (simp add: check_land_use_def)

lemma check_violations_in_no_rule:
  "zoning p = None \<or> zoning p = Some [] \<or> (\<exists>z. zoning p = Some z \<and> map_of table z = None)
   \<Longrightarrow> check_violations_in table cb p = Inr []"
  by (auto simp: check_violations_in_def)

lemma check_violations_in_rule:
  "zoning p = Some z \<Longrightarrow> z \<noteq> [] \<Longrightarrow> map_of table z = Some r \<Longrightarrow>
   check_lot_size r p = Inr v1 \<Longrightarrow> cb r p = Inr v2 \<Longrightarrow>
   check_violations_in table cb p
     = Inr (v1 @ v2 @ check_land_use r (classify_land_use (land_use_desc p)))"
  by (simp add: check_violations_in_def)

lemma check_violations_in_parts:
  assumes "check_violations_in table cb p = Inr vs"
  shows "vs = [] \<or> (\<exists>r v1 v2. check_lot_size r p = Inr v1 \<and> cb r p = Inr v2
            \<and> vs = v1 @ v2 @ check_land_use r (classify_land_use (land_use_desc p)))"
  using assms
  by (auto simp: check_violations_in_def Let_def split: option.splits if_splits sum.splits)

subsection \<open>The shipped rule tables\<close>

lemma ZONING_RULES_limits:
  assumes "map_of ZONING_RULES z = Some r"
  shows "z \<noteq> [] \<and> min_lot_size_sqft r \<noteq> Some 0 \<and> max_lot_coverage_pct r \<noteq> Some 0"
proof -
  from assms have "(z, r) \<in> set ZONING_RULES" by (rule map_of_SomeD)
  then show ?thesis unfolding ZONING_RULES_def by auto
qed

lemma ZONING_RULES_original_limits:
  assumes "map_of ZONING_RULES_original z = Some r"
  shows "z \<noteq> [] \<and> min_lot_size_sqft r \<noteq> Some 0 \<and> max_lot_coverage_pct r \<noteq> Some 0"
proof -
  from assms have "(z, r) \<in> set ZONING_RULES_original" by (rule map_of_SomeD)
  then show ?thesis unfolding ZONING_RULES_original_def by auto
qed

lemma check_zoning_violations_rule:
  assumes "zoning p = Some z" and "map_of ZONING_RULES z = Some r"
    and "parcel_area_sqft p = Some a"
  shows "check_zoning_violations p =
     Inr ((case min_lot_size_sqft r of
             None \<Rightarrow> []
           | Some m \<Rightarrow>
               if a < m then
                 [\<lparr>vtype = ''undersized_lot'', severity = ''major'',
                   description = LotSizeBelowMinimum a m, payload = Deficit (m - a)\<rparr>]
               else [])
          @ (case max_lot_coverage_pct r of
               None \<Rightarrow> []
             | Some m \<Rightarrow>
                 if 0 < get_lot_coverage p \<and> m < get_lot_coverage p then
                   [\<lparr>vtype = ''excess_lot_coverage'', severity = ''major'',
                     description = LotCoverageExceedsMaximum (get_lot_coverage p) m,
                     payload = ExcessPct (get_lot_coverage p - m)\<rparr>]
                 else [])
          @ check_land_use r (classify_land_use (land_use_desc p)))"
proof -
  from ZONING_RULES_limits [OF assms(2)]
  have nz: "z \<noteq> []" "min_lot_size_sqft r \<noteq> Some 0" "max_lot_coverage_pct r \<noteq> Some 0"
    by simp_all
  have "check_zoning_violations p =
      Inr ((case min_lot_size_sqft r of
             None \<Rightarrow> []
           | Some m \<Rightarrow>
               if m \<noteq> 0 \<and> a < m then
                 [\<lparr>vtype = ''undersized_lot'', severity = ''major'',
                   description = LotSizeBelowMinimum a m, payload = Deficit (m - a)\<rparr>]
               else [])
          @ (case max_lot_coverage_pct r of
               None \<Rightarrow> []
             | Some m \<Rightarrow>
                 if m \<noteq> 0 \<and> 0 < get_lot_coverage p \<and> m < get_lot_coverage p then
                   [\<lparr>vtype = ''excess_lot_coverage'', severity = ''major'',
                     description = LotCoverageExceedsMaximum (get_lot_coverage p) m,
                     payload = ExcessPct (get_lot_coverage p - m)\<rparr>]
                 else [])
          @ check_land_use r (classify_land_use (land_use_desc p)))"
    unfolding check_zoning_violations_def
    by (rule check_violations_in_rule [OF assms(1) nz(1) assms(2)
          check_lot_size_present [OF assms(3)] check_lot_coverage_total])
  with nz show ?thesis by (auto split: option.splits)
qed

subsection \<open>Claims on the violation evaluator\<close>

text \<open>
  C3. For a property whose zone rule (in \<open>ZONING_RULES\<close>) sets \<open>min_lot_size_sqft\<close>, the
  evaluator emits an \<open>undersized_lot\<close> violation exactly when \<open>parcel_area_sqft\<close> is
  strictly below the minimum; the violation has severity \<open>major\<close> and
  \<open>deficit = min_lot_size_sqft - parcel_area_sqft\<close>; an area equal to the minimum gives
  no such violation.
\<close>

theorem undersized_lot_strict:
  assumes "zoning p = Some z" and "map_of ZONING_RULES z = Some r"
    and "min_lot_size_sqft r = Some m" and "parcel_area_sqft p = Some a"
  shows "\<exists>vs. check_zoning_violations p = Inr vs
     \<and> ((\<exists>v\<in>set vs. vtype v = ''undersized_lot'') \<longleftrightarrow> a < m)
     \<and> (\<forall>v\<in>set vs. vtype v = ''undersized_lot'' \<longrightarrow>
          severity v = ''major'' \<and> payload v = Deficit (m - a))
     \<and> (a = m \<longrightarrow> (\<forall>v\<in>set vs. vtype v \<noteq> ''undersized_lot''))"
  using check_land_use_shape [of r "classify_land_use (land_use_desc p)"]
  by (auto simp: check_zoning_violations_rule [OF assms(1,2,4)] assms(3) split: option.splits)

theorem undersized_lot_strict_witness:
  "zoning (example_parcel ''SRB'' ''SINGLE FAM'' 14999 0) = Some ''SRB''
   \<and> map_of ZONING_RULES ''SRB'' = Some (the (map_of ZONING_RULES ''SRB''))
   \<and> min_lot_size_sqft (the (map_of ZONING_RULES ''SRB'')) = Some 15000
   \<and> parcel_area_sqft (example_parcel ''SRB'' ''SINGLE FAM'' 14999 0) = Some 14999
   \<and> (\<exists>vs. check_zoning_violations (example_parcel ''SRB'' ''SINGLE FAM'' 14999 0) = Inr vs
        \<and> (\<exists>v\<in>set vs. vtype v = ''undersized_lot'')
        \<and> (\<forall>v\<in>set vs. vtype v = ''undersized_lot'' \<longrightarrow>
              severity v = ''major'' \<and> payload v = Deficit 1))"
proof -
  have h1: "zoning (example_parcel ''SRB'' ''SINGLE FAM'' 14999 0) = Some ''SRB''"
    by (simp add: example_parcel_def)
  have h2: "map_of ZONING_RULES ''SRB'' = Some (the (map_of ZONING_RULES ''SRB''))"
    by (simp add: ZONING_RULES_def)
  have h3: "min_lot_size_sqft (the (map_of ZONING_RULES ''SRB'')) = Some 15000"
    by (simp add: ZONING_RULES_def)
  have h4: "parcel_area_sqft (example_parcel ''SRB'' ''SINGLE FAM'' 14999 0) = Some 14999"
    by (simp add: example_parcel_def)
  from undersized_lot_strict [OF h1 h2 h3 h4] h1 h2 h3 h4 show ?thesis
    by simp
qed

text \<open>
  C4. For a property whose zone rule (in \<open>ZONING_RULES\<close>) sets \<open>max_lot_coverage_pct\<close>,
  the evaluator emits an \<open>excess_lot_coverage\<close> violation exactly when the property's
  \<open>lot_coverage_pct\<close> (0 when the key is absent) is strictly greater than 0 and strictly
  greater than the maximum; the violation has severity \<open>major\<close> and
  \<open>excess_pct = lot_coverage_pct - max_lot_coverage_pct\<close>; a coverage equal to the maximum
  gives no such violation.
\<close>

theorem excess_lot_coverage_strict:
  assumes "zoning p = Some z" and "map_of ZONING_RULES z = Some r"
    and "max_lot_coverage_pct r = Some m" and "parcel_area_sqft p = Some a"
  shows "\<exists>vs. check_zoning_violations p = Inr vs
     \<and> ((\<exists>v\<in>set vs. vtype v = ''excess_lot_coverage'')
          \<longleftrightarrow> 0 < get_lot_coverage p \<and> m < get_lot_coverage p)
     \<and> (\<forall>v\<in>set vs. vtype v = ''excess_lot_coverage'' \<longrightarrow>
          severity v = ''major'' \<and> payload v = ExcessPct (get_lot_coverage p - m))
     \<and> (get_lot_coverage p = m \<longrightarrow> (\<forall>v\<in>set vs. vtype v \<noteq> ''excess_lot_coverage''))"
  using check_land_use_shape [of r "classify_land_use (land_use_desc p)"]
  by (auto simp: check_zoning_violations_rule [OF assms(1,2,4)] assms(3) split: option.splits)

theorem excess_lot_coverage_strict_witness:
  "zoning (example_parcel ''SRA'' ''SINGLE FAM'' 50000 (101 / 10)) = Some ''SRA''
   \<and> map_of ZONING_RULES ''SRA'' = Some (the (map_of ZONING_RULES ''SRA''))
   \<and> max_lot_coverage_pct (the (map_of ZONING_RULES ''SRA'')) = Some 10
   \<and> parcel_area_sqft (example_parcel ''SRA'' ''SINGLE FAM'' 50000 (101 / 10)) = Some 50000
   \<and> get_lot_coverage (example_parcel ''SRA'' ''SINGLE FAM'' 50000 (101 / 10)) = 101 / 10
   \<and> (\<exists>vs. check_zoning_violations (example_parcel ''SRA'' ''SINGLE FAM'' 50000 (101 / 10))
             = Inr vs
        \<and> (\<exists>v\<in>set vs. vtype v = ''excess_lot_coverage'')
        \<and> (\<forall>v\<in>set vs. vtype v = ''excess_lot_coverage'' \<longrightarrow>
              severity v = ''major'' \<and> payload v = ExcessPct (1 / 10)))"
proof -
  have h1: "zoning (example_parcel ''SRA'' ''SINGLE FAM'' 50000 (101 / 10)) = Some ''SRA''"
    by (simp add: example_parcel_def)
  have h2: "map_of ZONING_RULES ''SRA'' = Some (the (map_of ZONING_RULES ''SRA''))"
    by (simp add: ZONING_RULES_def)
  have h3: "max_lot_coverage_pct (the (map_of ZONING_RULES ''SRA'')) = Some 10"
    by (simp add: ZONING_RULES_def)
  have h4: "parcel_area_sqft (example_parcel ''SRA'' ''SINGLE FAM'' 50000 (101 / 10)) = Some 50000"
    by (simp add: example_parcel_def)
  have h5: "get_lot_coverage (example_parcel ''SRA'' ''SINGLE FAM'' 50000 (101 / 10)) = 101 / 10"
    by (simp add: example_parcel_def get_lot_coverage_def)
  from excess_lot_coverage_strict [OF h1 h2 h3 h4] h1 h2 h3 h4 h5 show ?thesis
    by simp
qed

text \<open>
  C6. For a property with a zone in the rule table, the evaluator emits an
  \<open>incompatible_use\<close> violation exactly when the classified use of \<open>land_use_desc\<close> is
  neither \<open>unknown\<close> nor \<open>vacant\<close>, the zone's \<open>allowed_uses\<close> is non-empty and the
  classified use is not in it; the violation has severity \<open>critical\<close> and carries the
  classified use and the zone's whole \<open>allowed_uses\<close>. In particular a use classified
  \<open>vacant\<close> or \<open>unknown\<close> never gives the violation.
\<close>

theorem incompatible_use_iff:
  assumes "zoning p = Some z" and "map_of ZONING_RULES z = Some r"
    and "parcel_area_sqft p = Some a"
  shows "\<exists>vs. check_zoning_violations p = Inr vs
     \<and> ((\<exists>v\<in>set vs. vtype v = ''incompatible_use'')
          \<longleftrightarrow> classify_land_use (land_use_desc p) \<noteq> ''unknown''
              \<and> classify_land_use (land_use_desc p) \<noteq> ''vacant''
              \<and> allowed_uses r \<noteq> []
              \<and> classify_land_use (land_use_desc p) \<notin> set (allowed_uses r))
     \<and> (\<forall>v\<in>set vs. vtype v = ''incompatible_use'' \<longrightarrow>
          severity v = ''critical''
          \<and> payload v = CurrentUse (classify_land_use (land_use_desc p)) (allowed_uses r))
     \<and> (classify_land_use (land_use_desc p) \<in> {''vacant'', ''unknown''} \<longrightarrow>
          (\<forall>v\<in>set vs. vtype v \<noteq> ''incompatible_use''))"
  by (auto simp: check_zoning_violations_rule [OF assms] check_land_use_def
           split: option.splits)

theorem incompatible_use_iff_witness:
  "zoning (example_parcel ''R'' ''Apartment bldg'' 250000 0) = Some ''R''
   \<and> map_of ZONING_RULES ''R'' = Some (the (map_of ZONING_RULES ''R''))
   \<and> parcel_area_sqft (example_parcel ''R'' ''Apartment bldg'' 250000 0) = Some 250000
   \<and> classify_land_use (land_use_desc (example_parcel ''R'' ''Apartment bldg'' 250000 0))
       = ''multi_family''
   \<and> allowed_uses (the (map_of ZONING_RULES ''R'')) = [''single_family'', ''accessory_dwelling'']
   \<and> (\<exists>vs. check_zoning_violations (example_parcel ''R'' ''Apartment bldg'' 250000 0) = Inr vs
        \<and> (\<exists>v\<in>set vs. vtype v = ''incompatible_use'')
        \<and> (\<forall>v\<in>set vs. vtype v = ''incompatible_use'' \<longrightarrow>
              severity v = ''critical''
              \<and> payload v = CurrentUse ''multi_family''
                               [''single_family'', ''accessory_dwelling'']))"
proof -
  have h1: "zoning (example_parcel ''R'' ''Apartment bldg'' 250000 0) = Some ''R''"
    by (simp add: example_parcel_def)
  have h2: "map_of ZONING_RULES ''R'' = Some (the (map_of ZONING_RULES ''R''))"
    by (simp add: ZONING_RULES_def)
  have h3: "parcel_area_sqft (example_parcel ''R'' ''Apartment bldg'' 250000 0) = Some 250000"
    by (simp add: example_parcel_def)
  have h4: "classify_land_use (land_use_desc (example_parcel ''R'' ''Apartment bldg'' 250000 0))
       = ''multi_family''"
    by code_simp
  have h5: "allowed_uses (the (map_of ZONING_RULES ''R''))
       = [''single_family'', ''accessory_dwelling'']"
    by (simp add: ZONING_RULES_def)
  from incompatible_use_iff [OF h1 h2 h3] h1 h2 h3 h4 h5 show ?thesis
    by simp
qed

text \<open>
  C7. \<open>check_zoning_violations\<close> never raises on a record of the documented domain and
  always returns a list of violations: the version of
  \<open>reanalyze_with_corrected_rules.py\<close> whenever \<open>parcel_area_sqft\<close> is present, the version
  of \<open>analyze_with_violations.py\<close> whenever \<open>parcel_area_sqft\<close> and \<open>lot_coverage_pct\<close> are
  present (its own normaliser always sets both). Both return the empty list when the
  record's zoning is absent, empty, or not a key of the rule table.
\<close>

theorem check_zoning_violations_total:
  "(parcel_area_sqft p \<noteq> None \<longrightarrow> (\<exists>vs. check_zoning_violations p = Inr vs))
   \<and> (parcel_area_sqft p \<noteq> None \<and> lot_coverage_pct p \<noteq> None
        \<longrightarrow> (\<exists>vs. awv_check_zoning_violations p = Inr vs))
   \<and> (zoning p = None \<or> zoning p = Some []
        \<or> (\<exists>z. zoning p = Some z \<and> map_of ZONING_RULES z = None)
        \<longrightarrow> check_zoning_violations p = Inr [])
   \<and> (zoning p = None \<or> zoning p = Some []
        \<or> (\<exists>z. zoning p = Some z \<and> map_of ZONING_RULES_original z = None)
        \<longrightarrow> awv_check_zoning_violations p = Inr [])"
proof (intro conjI impI)
  assume "parcel_area_sqft p \<noteq> None"
  then obtain a where a: "parcel_area_sqft p = Some a" by auto
  show "\<exists>vs. check_zoning_violations p = Inr vs"
    by (simp add: check_zoning_violations_def check_violations_in_def
          check_lot_size_present [OF a] check_lot_coverage_total split: option.splits)
next
  assume "parcel_area_sqft p \<noteq> None \<and> lot_coverage_pct p \<noteq> None"
  then obtain a c where a: "parcel_area_sqft p = Some a" and c: "lot_coverage_pct p = Some c"
    by auto
  show "\<exists>vs. awv_check_zoning_violations p = Inr vs"
    by (simp add: awv_check_zoning_violations_def check_violations_in_def
          check_lot_size_present [OF a] check_lot_coverage_subscript_present [OF c]
          split: option.splits)
next
  assume "zoning p = None \<or> zoning p = Some []
    \<or> (\<exists>z. zoning p = Some z \<and> map_of ZONING_RULES z = None)"
  then show "check_zoning_violations p = Inr []"
    unfolding check_zoning_violations_def by (rule check_violations_in_no_rule)
next
  assume "zoning p = None \<or> zoning p = Some []
    \<or> (\<exists>z. zoning p = Some z \<and> map_of ZONING_RULES_original z = None)"
  then show "awv_check_zoning_violations p = Inr []"
    unfolding awv_check_zoning_violations_def by (rule check_violations_in_no_rule)
qed

theorem check_zoning_violations_total_witness:
  "parcel_area_sqft (example_parcel ''XYZ'' ''SINGLE FAM'' 8712 0) \<noteq> None
   \<and> lot_coverage_pct (example_parcel ''XYZ'' ''SINGLE FAM'' 8712 0) \<noteq> None
   \<and> zoning (example_parcel ''XYZ'' ''SINGLE FAM'' 8712 0) = Some ''XYZ''
   \<and> map_of ZONING_RULES ''XYZ'' = None
   \<and> map_of ZONING_RULES_original ''XYZ'' = None
   \<and> check_zoning_violations (example_parcel ''XYZ'' ''SINGLE FAM'' 8712 0) = Inr []
   \<and> awv_check_zoning_violations (example_parcel ''XYZ'' ''SINGLE FAM'' 8712 0) = Inr []"
proof -
  have h1: "parcel_area_sqft (example_parcel ''XYZ'' ''SINGLE FAM'' 8712 0) \<noteq> None"
    and h2: "lot_coverage_pct (example_parcel ''XYZ'' ''SINGLE FAM'' 8712 0) \<noteq> None"
    and h3: "zoning (example_parcel ''XYZ'' ''SINGLE FAM'' 8712 0) = Some ''XYZ''"
    by (simp_all add: example_parcel_def)
  have h4: "map_of ZONING_RULES ''XYZ'' = None"
    by (simp add: ZONING_RULES_def)
  have h5: "map_of ZONING_RULES_original ''XYZ'' = None"
    by (simp add: ZONING_RULES_original_def)
  from check_zoning_violations_total [of "example_parcel ''XYZ'' ''SINGLE FAM'' 8712 0"]
    h1 h2 h3 h4 h5
  show ?thesis by simp
qed

lemma filter_single_type:
  "length xs \<le> 1 \<Longrightarrow> \<forall>v\<in>set xs. vtype v = ty \<Longrightarrow>
   length (filter (\<lambda>v. vtype v = t) xs) = (if t = ty then length xs else 0)"
  by (cases xs) auto

lemma at_most_one_of_three:
  fixes v1 v2 v3 :: "violation list"
  assumes "length v1 \<le> 1" "\<forall>v\<in>set v1. vtype v = ''undersized_lot''"
    and "length v2 \<le> 1" "\<forall>v\<in>set v2. vtype v = ''excess_lot_coverage''"
    and "length v3 \<le> 1" "\<forall>v\<in>set v3. vtype v = ''incompatible_use''"
  shows "length (filter (\<lambda>v. vtype v = t) (v1 @ v2 @ v3)) \<le> 1"
proof -
  have ne: "''undersized_lot'' \<noteq> ''excess_lot_coverage''"
    "''undersized_lot'' \<noteq> ''incompatible_use''"
    "''excess_lot_coverage'' \<noteq> ''incompatible_use''"
    by simp_all
  have "length (filter (\<lambda>v. vtype v = t) (v1 @ v2 @ v3))
      = (if t = ''undersized_lot'' then length v1 else 0)
        + (if t = ''excess_lot_coverage'' then length v2 else 0)
        + (if t = ''incompatible_use'' then length v3 else 0)"
    by (simp only: filter_append length_append filter_single_type [OF assms(1,2)]
          filter_single_type [OF assms(3,4)] filter_single_type [OF assms(5,6)] add.assoc)
  also have "\<dots> \<le> 1"
    using assms(1,3,5) ne by (cases "t = ''undersized_lot''"; cases "t = ''excess_lot_coverage''";
        cases "t = ''incompatible_use''") simp_all
  finally show ?thesis .
qed

text \<open>
  C10. For every property record and rule table, and for either form of the lot-coverage
  block, the returned list holds at most one violation of each type, so at most three
  violations.
\<close>

theorem at_most_one_violation_per_type:
  assumes "cb = check_lot_coverage \<or> cb = check_lot_coverage_subscript"
    and "check_violations_in table cb p = Inr vs"
  shows "length vs \<le> 3 \<and> (\<forall>t. length (filter (\<lambda>v. vtype v = t) vs) \<le> 1)"
proof -
  from check_violations_in_parts [OF assms(2)]
  consider "vs = []"
    | r v1 v2 where "check_lot_size r p = Inr v1" "cb r p = Inr v2"
        "vs = v1 @ v2 @ check_land_use r (classify_land_use (land_use_desc p))"
    by blast
  then show ?thesis
  proof cases
    case 1
    then show ?thesis by simp
  next
    case 2
    note s1 = check_lot_size_shape [OF 2(1)]
    from 2(2) assms(1)
    have s2: "length v2 \<le> 1 \<and> (\<forall>v\<in>set v2. vtype v = ''excess_lot_coverage'')"
      using check_lot_coverage_shape check_lot_coverage_subscript_shape by blast
    note s3 = check_land_use_shape [of r "classify_land_use (land_use_desc p)"]
    from s1 s2 s3 have len: "length vs \<le> 3" unfolding 2(3) by simp
    have "length (filter (\<lambda>v. vtype v = t) vs) \<le> 1" for t
      unfolding 2(3)
      by (rule at_most_one_of_three [OF conjunct1 [OF s1] conjunct2 [OF s1]
            conjunct1 [OF s2] conjunct2 [OF s2] conjunct1 [OF s3] conjunct2 [OF s3]])
    with len show ?thesis by simp
  qed
qed

theorem at_most_one_violation_per_type_witness:
  "(check_lot_coverage = check_lot_coverage \<or> check_lot_coverage = check_lot_coverage_subscript)
   \<and> check_violations_in ZONING_RULES check_lot_coverage
         (example_parcel ''R'' ''Apartment bldg'' 8712 12)
       = Inr [\<lparr>vtype = ''undersized_lot'', severity = ''major'',
                description = LotSizeBelowMinimum 8712 217800, payload = Deficit 209088\<rparr>,
              \<lparr>vtype = ''excess_lot_coverage'', severity = ''major'',
                description = LotCoverageExceedsMaximum 12 5, payload = ExcessPct 7\<rparr>,
              \<lparr>vtype = ''incompatible_use'', severity = ''critical'',
                description = LandUseNotAllowed ''multi_family'' ''Residential'',
                payload = CurrentUse ''multi_family''
                            [''single_family'', ''accessory_dwelling'']\<rparr>]
   \<and> length [\<lparr>vtype = ''undersized_lot'', severity = ''major'',
                description = LotSizeBelowMinimum 8712 217800, payload = Deficit 209088\<rparr>,
              \<lparr>vtype = ''excess_lot_coverage'', severity = ''major'',
                description = LotCoverageExceedsMaximum 12 5, payload = ExcessPct 7\<rparr>,
              \<lparr>vtype = ''incompatible_use'', severity = ''critical'',
                description = LandUseNotAllowed ''multi_family'' ''Residential'',
                payload = CurrentUse ''multi_family''
                            [''single_family'', ''accessory_dwelling'']\<rparr>] \<le> 3"
proof -
  have cl: "classify_land_use (Some ''Apartment bldg'') = ''multi_family''"
    by code_simp
  have h: "check_violations_in ZONING_RULES check_lot_coverage
      (example_parcel ''R'' ''Apartment bldg'' 8712 12) =
    Inr [\<lparr>vtype = ''undersized_lot'', severity = ''major'',
           description = LotSizeBelowMinimum 8712 217800, payload = Deficit 209088\<rparr>,
         \<lparr>vtype = ''excess_lot_coverage'', severity = ''major'',
           description = LotCoverageExceedsMaximum 12 5, payload = ExcessPct 7\<rparr>,
         \<lparr>vtype = ''incompatible_use'', severity = ''critical'',
           description = LandUseNotAllowed ''multi_family'' ''Residential'',
           payload = CurrentUse ''multi_family'' [''single_family'', ''accessory_dwelling'']\<rparr>]"
    by (simp add: check_violations_in_def example_parcel_def ZONING_RULES_def check_lot_size_def
          check_lot_coverage_def check_land_use_def subscript_def get_lot_coverage_def cl Let_def)
  have c: "check_lot_coverage = check_lot_coverage \<or> check_lot_coverage = check_lot_coverage_subscript"
    by simp
  from at_most_one_violation_per_type [OF c h, THEN conjunct1] c h show ?thesis
    by (intro conjI)
qed

subsection \<open>Facts about \<open>dd_update\<close>\<close>



lemma map_of_dd_update:
  "map_of (dd_update d f k kvs)
     = (map_of kvs)(k \<mapsto> f (case map_of kvs k of None \<Rightarrow> d | Some v \<Rightarrow> v))"
  by (induction d f k kvs rule: dd_update.induct) (auto simp: fun_eq_iff)

lemma dd_get_dd_update:
  "dd_get d (dd_update d f k kvs) k' = (if k' = k then f (dd_get d kvs k) else dd_get d kvs k')"
  by (simp add: dd_get_def map_of_dd_update)

subsection \<open>The accumulation loop of the metrics aggregator\<close>





subsection \<open>The aggregator under any float arithmetic\<close>






lemma accumulate_zones_on_total:
  "snd (accumulate_zones_on ops props (zd, t))
     = foldl (f_add ops) t
         (map parcel_area_acres [q \<leftarrow> props. zoning q \<noteq> None \<and> zoning q \<noteq> Some []])"
  by (induction props arbitrary: zd t) (auto split: option.splits)



lemma calculate_metrics_on_total_acres:
  "total_acres (calculate_metrics_on ops props)
     = running_sum ops
         (map parcel_area_acres [q \<leftarrow> props. zoning q \<noteq> None \<and> zoning q \<noteq> Some []])"
proof -
  obtain zd t where acc: "accumulate_zones_on ops props ([], 0) = (zd, t)"
    by (cases "accumulate_zones_on ops props ([], 0)")
  with accumulate_zones_on_total [of ops props "[]" 0] show ?thesis
    by (simp add: calculate_metrics_on_def running_sum_def Let_def)
qed


subsection \<open>Claims on the zone metrics aggregator\<close>





text \<open>
  The counterexample does not depend on exact arithmetic: whenever adding 0.125 to 0
  gives 0.125 and rounding 0.125 to two decimals does not, the reported acres of the one
  zone differ from \<open>total_acres\<close>.
\<close>

lemma zone_acres_conservation_fails_on:
  assumes "f_add ops 0 (1 / 8) = 1 / 8" and "f_round ops (1 / 8) 2 \<noteq> 1 / 8"
  shows "sum_list (map (z_total_acres \<circ> snd)
       (zones (calculate_metrics_on ops [example_parcel ''SRB'' ''SINGLE FAM'' 5445 0])))
     \<noteq> total_acres (calculate_metrics_on ops [example_parcel ''SRB'' ''SINGLE FAM'' 5445 0])"
proof -
  let ?r = "calculate_metrics_on ops [example_parcel ''SRB'' ''SINGLE FAM'' 5445 0]"
  have acres: "parcel_area_acres (example_parcel ''SRB'' ''SINGLE FAM'' 5445 0) = 1 / 8"
    by (simp add: example_parcel_def)
  have t: "total_acres ?r = f_add ops 0 (1 / 8)"
    unfolding calculate_metrics_on_total_acres running_sum_def
    by (simp add: example_parcel_def)
  have "sum_list (map (z_total_acres \<circ> snd) (zones ?r)) = f_round ops (f_add ops 0 (1 / 8)) 2"
    by (simp add: calculate_metrics_on_def example_parcel_def add_parcel_on_def
          new_zone_acc_def zone_result_on_def Let_def)
  with t assms show ?thesis by (simp only:) simp
qed



subsection \<open>The loop of the violation aggregator\<close>

lemma dd_update_map:
  assumes "\<And>v. g (f v) = f' (g v)"
  shows "map (\<lambda>(k, v). (k, g v)) (dd_update d f k kvs)
     = dd_update (g d) f' k (map (\<lambda>(k, v). (k, g v)) kvs)"
  by (induction kvs) (auto simp: assms)

lemma dd_get_fold_types_Suc:
  "dd_get 0 (fold (\<lambda>v. dd_update 0 Suc (vtype v)) vs m) t
     = dd_get 0 m t + length (filter (\<lambda>v. vtype v = t) vs)"
  by (induction vs arbitrary: m) (auto simp: dd_get_dd_update)

lemma analyze_step_entry:
  assumes "analyze_step cap check p st = Inr st'"
  shows "zone_entry st' z =
     (if zoning p = Some z \<and> z \<noteq> [] then
        (case check p of
           Inl e \<Rightarrow> zone_entry st z
         | Inr vs \<Rightarrow>
             if vs = [] then count_parcel (zone_entry st z)
             else record_violations cap p vs (count_parcel (zone_entry st z)))
      else zone_entry st z)"
  using assms
  by (auto simp: analyze_step_def zone_entry_def dd_get_dd_update Let_def
           split: option.splits if_splits sum.splits)

lemma analyze_step_examples:
  assumes "analyze_step cap check p st = Inr st'"
    and "length (examples (zone_entry st z)) \<le> cap"
  shows "length (examples (zone_entry st' z)) \<le> cap"
  using assms(2) unfolding analyze_step_entry [OF assms(1)]
  by (auto simp: count_parcel_def record_violations_def split: sum.splits)

lemma analyze_loop_examples:
  "analyze_loop cap check props st = Inr res \<Longrightarrow>
   length (examples (zone_entry st z)) \<le> cap \<Longrightarrow>
   length (examples (zone_entry res z)) \<le> cap"
proof (induction props arbitrary: st)
  case Nil
  then show ?case by simp
next
  case (Cons p props)
  from Cons.prems(1) obtain st' where step: "analyze_step cap check p st = Inr st'"
    and rest: "analyze_loop cap check props st' = Inr res"
    by (auto split: sum.splits)
  from Cons.IH [OF rest analyze_step_examples [OF step Cons.prems(2)]] show ?case .
qed

lemma analyze_step_checked:
  "analyze_step cap check p st = Inr st' \<Longrightarrow> zoning p = Some z \<Longrightarrow> z \<noteq> [] \<Longrightarrow>
   \<exists>vs. check p = Inr vs"
  by (auto simp: analyze_step_def Let_def split: sum.splits)

lemma analyze_loop_counts:
  assumes "analyze_loop cap check props st = Inr res" and "z \<noteq> []"
  shows "total_parcels (zone_entry res z)
       = total_parcels (zone_entry st z) + length [p \<leftarrow> props. zoning p = Some z]
     \<and> parcels_with_violations (zone_entry res z)
       = parcels_with_violations (zone_entry st z)
         + length [p \<leftarrow> props. zoning p = Some z \<and> check p \<noteq> Inr []]
     \<and> dd_get 0 (violations_by_type (zone_entry res z)) t
       = dd_get 0 (violations_by_type (zone_entry st z)) t
         + sum_list (map (violations_of_type check t) [p \<leftarrow> props. zoning p = Some z])"
  using assms(1)
proof (induction props arbitrary: st)
  case Nil
  then show ?case by simp
next
  case (Cons p props)
  from Cons.prems obtain st' where step: "analyze_step cap check p st = Inr st'"
    and rest: "analyze_loop cap check props st' = Inr res"
    by (auto split: sum.splits)
  note IH = Cons.IH [OF rest]
  note entry = analyze_step_entry [OF step, of z]
  show ?case
  proof (cases "zoning p = Some z")
    case False
    with entry have "zone_entry st' z = zone_entry st z" by simp
    with IH False show ?thesis by simp
  next
    case True
    from analyze_step_checked [OF step True assms(2)]
    obtain vs where vs: "check p = Inr vs" by blast
    show ?thesis
    proof (cases "vs = []")
      case True
      with entry \<open>zoning p = Some z\<close> vs assms(2)
      have "zone_entry st' z = count_parcel (zone_entry st z)" by simp
      with IH \<open>zoning p = Some z\<close> vs True show ?thesis
        by (simp add: count_parcel_def violations_of_type_def)
    next
      case False
      with entry \<open>zoning p = Some z\<close> vs assms(2)
      have "zone_entry st' z = record_violations cap p vs (count_parcel (zone_entry st z))"
        by simp
      with IH \<open>zoning p = Some z\<close> vs False show ?thesis
        by (simp add: count_parcel_def record_violations_def violations_of_type_def
              dd_get_fold_types_Suc)
    qed
  qed
qed

lemma counts_count_parcel:
  "counts (count_parcel s) = (\<lambda>(a, b, c). (a + 1, b, c)) (counts s)"
  by (simp add: counts_def count_parcel_def)

lemma counts_record_violations:
  "counts (record_violations cap p vs s)
     = (\<lambda>(a, b, c). (a, b + 1, fold (\<lambda>v. dd_update 0 (\<lambda>n. n + 1) (vtype v)) vs c)) (counts s)"
  by (simp add: counts_def record_violations_def)

lemma counts_dd_update_count_parcel:
  "map (\<lambda>(k, v). (k, counts v)) (dd_update d count_parcel k kvs)
     = dd_update (counts d) (\<lambda>(a, b, c). (a + 1, b, c)) k (map (\<lambda>(k, v). (k, counts v)) kvs)"
  by (rule dd_update_map) (rule counts_count_parcel)

lemma counts_dd_update_record_violations:
  "map (\<lambda>(k, v). (k, counts v)) (dd_update d (record_violations cap p vs) k kvs)
     = dd_update (counts d)
         (\<lambda>(a, b, c). (a, b + 1, fold (\<lambda>v. dd_update 0 (\<lambda>n. n + 1) (vtype v)) vs c)) k
         (map (\<lambda>(k, v). (k, counts v)) kvs)"
  by (rule dd_update_map) (rule counts_record_violations)

lemma analyze_step_zone_counts:
  assumes "zone_counts st1 = zone_counts st2"
  shows "map_sum id zone_counts (analyze_step c1 check p st1)
       = map_sum id zone_counts (analyze_step c2 check p st2)"
proof -
  have c: "map (\<lambda>(k, v). (k, counts v)) (violations_by_zone st1)
      = map (\<lambda>(k, v). (k, counts v)) (violations_by_zone st2)"
    using assms by (simp add: zone_counts_def)
  show ?thesis
    unfolding analyze_step_def zone_counts_def Let_def
    by (simp add: c counts_dd_update_count_parcel counts_dd_update_record_violations
          split: option.splits sum.splits)
qed

lemma analyze_loop_zone_counts:
  "zone_counts st1 = zone_counts st2 \<Longrightarrow>
   map_sum id zone_counts (analyze_loop c1 check props st1)
     = map_sum id zone_counts (analyze_loop c2 check props st2)"
proof (induction props arbitrary: st1 st2)
  case Nil
  then show ?case by simp
next
  case (Cons p props)
  note step = analyze_step_zone_counts [OF Cons.prems, of c1 check p c2]
  show ?case
  proof (cases "analyze_step c1 check p st1")
    case (Inl e)
    with step have "analyze_step c2 check p st2 = Inl e"
      by (cases "analyze_step c2 check p st2") auto
    with Inl show ?thesis by simp
  next
    case (Inr s1)
    with step obtain s2 where s2: "analyze_step c2 check p st2 = Inr s2"
      and eq: "zone_counts s1 = zone_counts s2"
      by (cases "analyze_step c2 check p st2") auto
    from Cons.IH [OF eq] Inr s2 show ?thesis by simp
  qed
qed

text \<open>The aggregator returns whenever the evaluator returns on every zoned record.\<close>

lemma analyze_loop_returns:
  "\<forall>p\<in>set props. \<exists>vs. check p = Inr vs \<Longrightarrow> \<exists>res. analyze_loop cap check props st = Inr res"
proof (induction props arbitrary: st)
  case Nil
  then show ?case by simp
next
  case (Cons p props)
  then obtain vs where "check p = Inr vs" by auto
  then have "\<exists>st'. analyze_step cap check p st = Inr st'"
    by (simp add: analyze_step_def Let_def split: option.splits)
  then obtain st' where "analyze_step cap check p st = Inr st'" ..
  with Cons show ?case by simp
qed

lemma analyze_violations_returns:
  assumes "\<forall>p\<in>set props. parcel_area_sqft p \<noteq> None"
  shows "\<exists>res. analyze_violations props = Inr res"
proof -
  have "\<exists>vs. check_zoning_violations p = Inr vs" if "p \<in> set props" for p
  proof -
    from that assms obtain a where a: "parcel_area_sqft p = Some a" by auto
    show ?thesis
      by (simp add: check_zoning_violations_def check_violations_in_def
            check_lot_size_present [OF a] check_lot_coverage_total split: option.splits)
  qed
  then show ?thesis
    unfolding analyze_violations_def analyze_with_def
    by (intro analyze_loop_returns) blast
qed

subsection \<open>Claim on the violation aggregator\<close>

text \<open>
  C8. \<open>analyze_properties\<close> is \<open>analyze_with 5\<close> and \<open>analyze_violations\<close> is
  \<open>analyze_with 10\<close>, each on its own evaluator. Whenever the aggregator returns, every
  zone's \<open>examples\<close> list has at most \<open>cap\<close> entries; for every zone code the counts
  \<open>total_parcels\<close>, \<open>parcels_with_violations\<close> and \<open>violations_by_type\<close> are the exact
  numbers over the whole collection; and with any other cap the aggregator returns too,
  with the same zones in the same order and the same counts.
\<close>

theorem example_cap_bounds_examples_only:
  assumes "analyze_with cap check props = Inr res"
  shows "(\<forall>z. length (examples (zone_entry res z)) \<le> cap)
     \<and> (\<forall>z t. z \<noteq> [] \<longrightarrow>
          total_parcels (zone_entry res z) = length [p \<leftarrow> props. zoning p = Some z]
          \<and> parcels_with_violations (zone_entry res z)
            = length [p \<leftarrow> props. zoning p = Some z \<and> check p \<noteq> Inr []]
          \<and> dd_get 0 (violations_by_type (zone_entry res z)) t
            = sum_list (map (violations_of_type check t) [p \<leftarrow> props. zoning p = Some z]))
     \<and> (\<forall>cap'. \<exists>res'. analyze_with cap' check props = Inr res'
            \<and> zone_counts res' = zone_counts res)
     \<and> analyze_properties = analyze_with 5 awv_check_zoning_violations
     \<and> analyze_violations = analyze_with 10 check_zoning_violations"
proof (intro conjI allI impI)
  fix z
  let ?init = "\<lparr>violations_by_zone = [], all_violations = []\<rparr>"
  have "length (examples (zone_entry ?init z)) \<le> cap"
    by (simp add: zone_entry_def dd_get_def new_zone_summary_def)
  with assms show "length (examples (zone_entry res z)) \<le> cap"
    unfolding analyze_with_def by (rule analyze_loop_examples)
next
  fix z t
  assume z: "z \<noteq> ([] :: string)"
  let ?init = "\<lparr>violations_by_zone = [], all_violations = []\<rparr>"
  have init: "zone_entry ?init z = new_zone_summary"
    by (simp add: zone_entry_def dd_get_def)
  from assms have loop: "analyze_loop cap check props ?init = Inr res"
    by (simp add: analyze_with_def)
  note c = analyze_loop_counts [OF loop z, of t]
  from c show "total_parcels (zone_entry res z) = length [p \<leftarrow> props. zoning p = Some z]"
    by (simp add: init new_zone_summary_def)
  from c show "parcels_with_violations (zone_entry res z)
      = length [p \<leftarrow> props. zoning p = Some z \<and> check p \<noteq> Inr []]"
    by (simp add: init new_zone_summary_def)
  from c show "dd_get 0 (violations_by_type (zone_entry res z)) t
      = sum_list (map (violations_of_type check t) [p \<leftarrow> props. zoning p = Some z])"
    by (simp add: init new_zone_summary_def dd_get_def)
next
  fix cap'
  have "map_sum id zone_counts (analyze_with cap' check props)
      = map_sum id zone_counts (analyze_with cap check props)"
    unfolding analyze_with_def by (rule analyze_loop_zone_counts) simp
  with assms show "\<exists>res'. analyze_with cap' check props = Inr res'
      \<and> zone_counts res' = zone_counts res"
    by (cases "analyze_with cap' check props") auto
next
  show "analyze_properties = analyze_with 5 awv_check_zoning_violations"
    by (rule analyze_properties_def)
next
  show "analyze_violations = analyze_with 10 check_zoning_violations"
    by (rule analyze_violations_def)
qed

theorem example_cap_bounds_examples_only_witness:
  "\<exists>res. analyze_violations
            [example_parcel ''SRB'' ''SINGLE FAM'' 8712 0,
             example_parcel ''SRB'' ''SINGLE FAM'' 4356 0,
             example_parcel ''XYZ'' ''SINGLE FAM'' 4356 0] = Inr res
     \<and> length (examples (zone_entry res ''SRB'')) \<le> 10
     \<and> total_parcels (zone_entry res ''SRB'') = 2
     \<and> total_parcels (zone_entry res ''XYZ'') = 1
     \<and> (\<exists>res'. analyze_with 5 check_zoning_violations
                   [example_parcel ''SRB'' ''SINGLE FAM'' 8712 0,
                    example_parcel ''SRB'' ''SINGLE FAM'' 4356 0,
                    example_parcel ''XYZ'' ''SINGLE FAM'' 4356 0] = Inr res'
            \<and> zone_counts res' = zone_counts res)"
proof -
  let ?props = "[example_parcel ''SRB'' ''SINGLE FAM'' 8712 0,
                 example_parcel ''SRB'' ''SINGLE FAM'' 4356 0,
                 example_parcel ''XYZ'' ''SINGLE FAM'' 4356 0]"
  have "case analyze_with 10 check_zoning_violations ?props of
          Inl e \<Rightarrow> False | Inr res \<Rightarrow> True"
    by code_simp
  then obtain res where res: "analyze_with 10 check_zoning_violations ?props = Inr res"
    by (cases "analyze_with 10 check_zoning_violations ?props") auto
  note r = example_cap_bounds_examples_only [OF res]
  have n1: "length [p \<leftarrow> ?props. zoning p = Some ''SRB''] = 2"
    by (simp add: example_parcel_def)
  have n2: "length [p \<leftarrow> ?props. zoning p = Some ''XYZ''] = 1"
    by (simp add: example_parcel_def)
  from r have "length (examples (zone_entry res ''SRB'')) \<le> 10" by blast
  moreover from r n1 have "total_parcels (zone_entry res ''SRB'') = 2" by simp
  moreover from r n2 have "total_parcels (zone_entry res ''XYZ'') = 1" by simp
  moreover from r have "\<exists>res'. analyze_with 5 check_zoning_violations ?props = Inr res'
      \<and> zone_counts res' = zone_counts res" by blast
  ultimately show ?thesis using res by (simp add: analyze_violations_def)
qed

subsection \<open>Divisions of the comparative layer\<close>

lemma div_if_positive_total: "div_if_positive a b = Inr (if 0 < b then a / b else 0)"
  by (simp add: div_if_positive_def py_div_def)

lemma pct_if_positive_total: "pct_if_positive a b = Inr (if 0 < b then a / b * 100 else 0)"
  by (simp add: pct_if_positive_def py_div_def)

lemma then_do_Inr [simp]: "then_do (Inr x) f = f x"
  by (simp add: then_do_def)

lemma then_do_Inl [simp]: "then_do (Inl e) f = Inl e"
  by (simp add: then_do_def)

text \<open>
  Every guarded division of \<open>generate_residential_comparison\<close> yields a number, 0 on a
  denominator that is not positive. The one division without a guard decides whether
  the function returns: it raises exactly when \<open>value_ratio\<close> is 0, that is when the
  multi-family zones hold no positive total value or the single-family zones hold a
  total value of 0.
\<close>

lemma generate_residential_comparison_raises_iff:
  "generate_residential_comparison m v = Inl ZeroDivisionError
     \<longleftrightarrow> gs_total_value (aggregate_group multi_family_zones m v) \<le> 0
          \<or> gs_total_value (aggregate_group single_family_zones m v) = 0"
  by (auto simp: generate_residential_comparison_def Let_def div_if_positive_total
        pct_if_positive_total py_div_def)

lemma generate_residential_comparison_returns_iff:
  "(\<exists>c. generate_residential_comparison m v = Inr c)
     \<longleftrightarrow> 0 < gs_total_value (aggregate_group multi_family_zones m v)
          \<and> gs_total_value (aggregate_group single_family_zones m v) \<noteq> 0"
  by (auto simp: generate_residential_comparison_def Let_def div_if_positive_total
        pct_if_positive_total py_div_def)

subsection \<open>Claim on the derived ratios\<close>

text \<open>
  C9. The claim holds of every guarded division, but
  \<open>generate_residential_comparison\<close> also divides 1 by \<open>value_ratio\<close> without a guard.
  On the analysis of an empty collection, and on that of a collection with parcels in
  zone \<open>SRB\<close> only, the multi-family total value is 0, \<open>value_ratio\<close> falls back to 0 and
  the function raises \<open>ZeroDivisionError\<close> instead of yielding 0.
\<close>

theorem residential_comparison_zero_division:
  "analyze_violations [] = Inr \<lparr>violations_by_zone = [], all_violations = []\<rparr>
   \<and> generate_residential_comparison (calculate_zone_metrics [])
         \<lparr>violations_by_zone = [], all_violations = []\<rparr>
       = Inl ZeroDivisionError
   \<and> (case analyze_violations [example_parcel ''SRB'' ''SINGLE FAM'' 8712 0,
                                example_parcel ''SRB'' ''SINGLE FAM'' 4356 0] of
         Inl e \<Rightarrow> False
       | Inr a \<Rightarrow>
           generate_residential_comparison
             (calculate_zone_metrics [example_parcel ''SRB'' ''SINGLE FAM'' 8712 0,
                                      example_parcel ''SRB'' ''SINGLE FAM'' 4356 0]) a
           = Inl ZeroDivisionError)"
proof (intro conjI)
  show "analyze_violations [] = Inr \<lparr>violations_by_zone = [], all_violations = []\<rparr>"
    by (simp add: analyze_violations_def analyze_with_def)
  show "generate_residential_comparison (calculate_zone_metrics [])
         \<lparr>violations_by_zone = [], all_violations = []\<rparr> = Inl ZeroDivisionError"
    by code_simp
  show "case analyze_violations [example_parcel ''SRB'' ''SINGLE FAM'' 8712 0,
                                example_parcel ''SRB'' ''SINGLE FAM'' 4356 0] of
         Inl e \<Rightarrow> False
       | Inr a \<Rightarrow>
           generate_residential_comparison
             (calculate_zone_metrics [example_parcel ''SRB'' ''SINGLE FAM'' 8712 0,
                                      example_parcel ''SRB'' ''SINGLE FAM'' 4356 0]) a
           = Inl ZeroDivisionError"
    by code_simp
qed


end
